theory Spec2Isabelle
  imports Main "HOL-Library.Word"
begin

section \<open>Delivery box reporter: constants, settings and retained state\<close>

text \<open>
  The firmware runs on an ESP8266: \<open>int\<close>, \<open>long\<close> and \<open>unsigned long\<close> are 32 bits wide.
  Times (\<open>millis()\<close>, the fields of \<open>MY_RTC\<close>) are \<open>unsigned long\<close> and are modelled as
  \<open>32 word\<close>, so that every sum and difference wraps as it does on the device.
  \<open>settings.sleeptime\<close> is an \<open>int\<close> that the code casts to \<open>unsigned long\<close> and multiplies;
  it is kept as the 32-bit pattern. Distances are \<open>int\<close>s that are only compared, never
  computed with, and are modelled as mathematical integers.
\<close>

definition ONE_HOUR :: "32 word" where
  "ONE_HOUR = 3600000"

definition SAMPLE_COUNT :: nat where
  "SAMPLE_COUNT = 5"

definition PUBLISH_DELAY :: "32 word" where
  "PUBLISH_DELAY = 400"

definition VALID_SETTINGS_FLAG :: "32 word" where
  "VALID_SETTINGS_FLAG = 0xDAB0"

definition DEFAULT_SLEEP_TIME :: "32 word" where
  "DEFAULT_SLEEP_TIME = 0"

definition DEFAULT_LORA_TARGET_ADDRESS :: "16 word" where
  "DEFAULT_LORA_TARGET_ADDRESS = 1"

text \<open>
  The struct \<open>conf\<close>, kept in EEPROM. The fields that only parametrise the radio module
  and the display rotation (\<open>debug\<close>, \<open>invertdisplay\<close>, \<open>loRaAddress\<close>, \<open>loRaNetworkID\<close>,
  \<open>loRaBand\<close>, ...) are read by no function below and are left out.
\<close>

record conf =
  validConfig :: "32 word"
  mindistance :: int
  maxdistance :: int
  sleeptime :: "32 word"
  displayenabled :: bool
  loRaTargetAddress :: "16 word"

text \<open>The struct \<open>MY_RTC\<close>, kept in the RTC memory across deep sleep.\<close>

record MY_RTC =
  nextHealthReportTime :: "32 word"
  rtc :: "32 word"
  wasPresent :: bool
  presentReported :: bool
  absentReported :: bool
  rssi :: int

text \<open>The initial values that the declarations of the two structs give.\<close>

definition conf_init :: conf where
  "conf_init = \<lparr>validConfig = 0, mindistance = 0, maxdistance = 400,
     sleeptime = DEFAULT_SLEEP_TIME, displayenabled = True,
     loRaTargetAddress = DEFAULT_LORA_TARGET_ADDRESS\<rparr>"

definition MY_RTC_init :: MY_RTC where
  "MY_RTC_init = \<lparr>nextHealthReportTime = 0, rtc = 0, wasPresent = False,
     presentReported = False, absentReported = False, rssi = - 99\<rparr>"

text \<open>
  What \<open>report\<close> puts into the JSON document: the distance, the battery reading and the
  presence. The battery is kept as the raw count of \<open>ESP.getVcc()\<close>; its conversion to
  volts (Arduino's \<open>map\<close> and a float division) is not modelled.
\<close>

record report_record =
  r_distance :: int
  r_battery :: int
  r_isPresent :: bool

text \<open>
  The two ways in which the program stops running: a restart (\<open>ESP.restart()\<close>,
  \<open>ESP.reset()\<close>) and deep sleep, with the argument of \<open>ESP.deepSleep\<close> in microseconds
  (a 64-bit parameter that receives a product computed in 32 bits).
\<close>

datatype halt = Restart | DeepSleep "64 word"

text \<open>
  The device: the global variables of the program, then the hardware they are saved to
  (EEPROM, RTC memory), then what the program has done to the outside: the number of range
  readings taken from the sensor, the messages handed to \<open>lora.send\<close> with their target
  address, the result lines that \<open>report\<close> prints on the serial port, and whether the
  program has stopped.
\<close>

record device =
  settings :: conf
  settingsAreValid :: bool
  doneTimestamp :: "32 word"
  isPresent :: bool
  distance :: int
  myRtc :: MY_RTC
  eeprom :: conf
  rtcMem :: MY_RTC
  rangeReads :: nat
  published :: "(16 word \<times> report_record) list"
  serialOut :: "string list"
  halted :: "halt option"


section \<open>Measuring\<close>

text \<open>
  \<open>getDistance\<close>: one reading of the sensor, stored in the global \<open>distance\<close>; a reading of
  zero is the driver's failure value and is returned as \<open>-1\<close>. The sensor is a function
  from the number of readings taken so far to the next \<open>uint16_t\<close> reading.
\<close>

definition getDistance :: "(nat \<Rightarrow> 16 word) \<Rightarrow> device \<Rightarrow> int \<times> device" where
  "getDistance sensor d =
     (let d1 = d\<lparr>distance := uint (sensor (rangeReads d)), rangeReads := rangeReads d + 1\<rparr>
      in (if distance d1 \<noteq> 0 then distance d1 else - 1, d1))"

text \<open>The first loop of \<open>measure\<close>: \<open>n\<close> calls of \<open>getDistance\<close>, filling \<open>vals\<close> in order.\<close>

fun getSamples :: "nat \<Rightarrow> (nat \<Rightarrow> 16 word) \<Rightarrow> device \<Rightarrow> int list \<times> device" where
  "getSamples 0 sensor d = ([], d)"
| "getSamples (Suc n) sensor d =
     (let (v, d1) = getDistance sensor d;
          (vs, d2) = getSamples n sensor d1
      in (v # vs, d2))"

text \<open>
  The inner loop of the vote: \<open>candidateCount\<close> starts at 1 and is incremented for every
  \<open>j\<close> from \<open>i + 1\<close> to \<open>n - 1\<close> with \<open>vals[j]\<close> equal to the candidate \<open>vals[i]\<close>.
\<close>

definition candidateCount :: "nat \<Rightarrow> int list \<Rightarrow> nat \<Rightarrow> nat" where
  "candidateCount n vals i =
     fold (\<lambda>j c. if vals ! i = vals ! j then c + 1 else c) [i + 1..<n] 1"

text \<open>
  The outer loop: \<open>i\<close> runs from 0 to \<open>n - 2\<close>; the pair is (\<open>answer\<close>, \<open>answerCount\<close>),
  initially (0, 0), replaced when the candidate's count is strictly greater.
\<close>

definition dominant :: "nat \<Rightarrow> int list \<Rightarrow> int" where
  "dominant n vals =
     fst (fold (\<lambda>i (answer, answerCount).
                  if candidateCount n vals i > answerCount
                  then (vals ! i, candidateCount n vals i)
                  else (answer, answerCount))
               [0..<n - 1] (0, 0))"

text \<open>
  \<open>measure\<close> (named \<open>measureDistance\<close> here, \<open>measure\<close> being a constant of HOL):
  \<open>SAMPLE_COUNT\<close> readings, then the most common value among them.
\<close>

definition measureDistance :: "(nat \<Rightarrow> 16 word) \<Rightarrow> device \<Rightarrow> int \<times> device" where
  "measureDistance sensor d =
     (let (vals, d1) = getSamples SAMPLE_COUNT sensor d
      in (dominant SAMPLE_COUNT vals, d1))"


section \<open>Settings and serial commands\<close>

definition initializeSettings :: "device \<Rightarrow> device" where
  "initializeSettings d =
     d\<lparr>settings := (settings d)\<lparr>validConfig := 0, mindistance := 0, maxdistance := 400,
        sleeptime := DEFAULT_SLEEP_TIME, displayenabled := True,
        loRaTargetAddress := DEFAULT_LORA_TARGET_ADDRESS\<rparr>\<rparr>"

text \<open>
  \<open>saveSettings\<close>: its test is the constant \<open>true\<close>, so the settings are always marked
  valid; then they are written to EEPROM (the write is taken to succeed; no caller looks
  at the result).
\<close>

definition saveSettings :: "device \<Rightarrow> device" where
  "saveSettings d =
     (let d1 = d\<lparr>settings := (settings d)\<lparr>validConfig := VALID_SETTINGS_FLAG\<rparr>,
                   settingsAreValid := True\<rparr>
      in d1\<lparr>eeprom := settings d1\<rparr>)"

definition loadSettings :: "device \<Rightarrow> device" where
  "loadSettings d =
     (let d1 = d\<lparr>settings := eeprom d\<rparr>
      in if validConfig (settings d1) = VALID_SETTINGS_FLAG
         then d1\<lparr>settingsAreValid := True\<rparr>
         else d1\<lparr>settingsAreValid := False\<rparr>)"

definition saveRTC :: "device \<Rightarrow> device" where
  "saveRTC d = d\<lparr>rtcMem := myRtc d\<rparr>"

text \<open>
  A line of serial input, after \<open>processCommand\<close> has split it at \<open>=\<close> and \<open>atoi\<close> has
  read the value. \<open>Cmd_other\<close> stands for the commands that set a field left out of
  \<open>conf\<close>; they too end in \<open>saveSettings\<close>. A line that is no command, or whose value is
  \<open>NULL\<close>, changes nothing and is the \<open>None\<close> of \<open>checkForCommand\<close>, as is the absence of
  input.
\<close>

datatype command =
    Cmd_mindistance int
  | Cmd_maxdistance int
  | Cmd_sleeptime "32 word"
  | Cmd_loRaTargetAddress "16 word"
  | Cmd_displayenabled bool
  | Cmd_other
  | Cmd_factorydefaults

fun processCommand :: "command \<Rightarrow> device \<Rightarrow> device" where
  "processCommand (Cmd_mindistance v) d =
     saveSettings (d\<lparr>settings := (settings d)\<lparr>mindistance := v\<rparr>\<rparr>)"
| "processCommand (Cmd_maxdistance v) d =
     saveSettings (d\<lparr>settings := (settings d)\<lparr>maxdistance := v\<rparr>\<rparr>)"
| "processCommand (Cmd_sleeptime v) d =
     saveSettings (d\<lparr>settings := (settings d)\<lparr>sleeptime := v\<rparr>\<rparr>)"
| "processCommand (Cmd_loRaTargetAddress v) d =
     saveSettings (d\<lparr>settings := (settings d)\<lparr>loRaTargetAddress := v\<rparr>\<rparr>)"
| "processCommand (Cmd_displayenabled v) d =
     saveSettings (d\<lparr>settings := (settings d)\<lparr>displayenabled := v\<rparr>\<rparr>)"
| "processCommand Cmd_other d = saveSettings d"
| "processCommand Cmd_factorydefaults d =
     (saveSettings (initializeSettings d))\<lparr>halted := Some Restart\<rparr>"

definition checkForCommand :: "command option \<Rightarrow> device \<Rightarrow> device" where
  "checkForCommand c d = (case c of None \<Rightarrow> d | Some cmd \<Rightarrow> processCommand cmd d)"

text \<open>
  \<open>myDelay\<close> polls \<open>checkForCommand\<close> every 10 ms until the time is over. The list holds
  what each poll finds; a restart ends the polling.
\<close>

fun myDelay :: "command option list \<Rightarrow> device \<Rightarrow> device" where
  "myDelay [] d = d"
| "myDelay (p # ps) d =
     (let d1 = checkForCommand p d
      in if halted d1 \<noteq> None then d1 else myDelay ps d1)"


section \<open>Reporting\<close>

text \<open>
  \<open>publish\<close> hands the document to \<open>lora.send\<close> and returns its result, which is an input
  here; \<open>report\<close> prints one of two lines according to it.
\<close>

definition publish :: "bool \<Rightarrow> report_record \<Rightarrow> device \<Rightarrow> bool \<times> device" where
  "publish sent doc d =
     (sent, d\<lparr>published := published d @ [(loRaTargetAddress (settings d), doc)]\<rparr>)"

definition report :: "int \<Rightarrow> bool \<Rightarrow> device \<Rightarrow> device" where
  "report vcc sent d =
     (let doc = \<lparr>r_distance = distance d, r_battery = vcc, r_isPresent = isPresent d\<rparr>;
          (ok, d1) = publish sent doc d
      in if ok then d1\<lparr>serialOut := serialOut d1 @ [''Sending data successful.'']\<rparr>
         else d1\<lparr>serialOut := serialOut d1 @ [''Sending data failed!'']\<rparr>)"

text \<open>\<open>myMillis\<close>: the hardware timer \<open>millis()\<close>, an input, plus the retained offset.\<close>

definition myMillis :: "32 word \<Rightarrow> device \<Rightarrow> 32 word" where
  "myMillis millis d = millis + rtc (myRtc d)"

text \<open>
  The inputs of one call of \<open>sendOrNot\<close>: the value of \<open>millis()\<close> at each place where the
  function reads it (named by the line of the source), the battery count and the result
  of \<open>lora.send\<close> for \<open>report\<close>, and the polls of the final \<open>myDelay(5000)\<close>.
\<close>

record sendOrNot_in =
  millis544 :: "32 word"
  vcc :: int
  sendOk :: bool
  millis562 :: "32 word"
  millis563 :: "32 word"
  millis565 :: "32 word"
  millis567 :: "32 word"
  polls :: "command option list"

definition sendOrNot :: "sendOrNot_in \<Rightarrow> device \<Rightarrow> device" where
  "sendOrNot i d =
     (if myMillis (millis544 i) d > nextHealthReportTime (myRtc d)
         \<or> ((\<not> wasPresent (myRtc d) \<and> \<not> isPresent d) \<and> \<not> absentReported (myRtc d))
         \<or> ((wasPresent (myRtc d) \<and> isPresent d) \<and> \<not> presentReported (myRtc d))
      then
        let d1 = report (vcc i) (sendOk i) d;
            d2 = (if isPresent d1
                  then d1\<lparr>myRtc := (myRtc d1)\<lparr>presentReported := True, absentReported := False\<rparr>\<rparr>
                  else d1\<lparr>myRtc := (myRtc d1)\<lparr>absentReported := True, presentReported := False\<rparr>\<rparr>);
            d3 = d2\<lparr>doneTimestamp := millis562 i\<rparr>;
            d4 = (if myMillis (millis563 i) d3 > nextHealthReportTime (myRtc d3)
                  then d3\<lparr>myRtc := (myRtc d3)\<lparr>rtc := millis565 i\<rparr>\<rparr>
                  else d3);
            d5 = d4\<lparr>myRtc := (myRtc d4)\<lparr>nextHealthReportTime := myMillis (millis567 i) d4 + ONE_HOUR\<rparr>\<rparr>
        in myDelay (polls i) d5
      else d)"


section \<open>The main loop\<close>

text \<open>
  The inputs of one call of \<open>loop\<close>: what the first \<open>checkForCommand\<close> finds; for the
  continuous branch the sensor, the battery count, the result of \<open>lora.send\<close> and the
  polls of \<open>myDelay(1000)\<close>; for the sleeping branch the values of \<open>millis()\<close>.
\<close>

record loop_in =
  command0 :: "command option"
  sensor1 :: "nat \<Rightarrow> 16 word"
  vcc1 :: int
  sendOk1 :: bool
  polls1 :: "command option list"
  millis485 :: "32 word"
  millis487 :: "32 word"
  millis497 :: "32 word"
  millis500 :: "32 word"
  millis504 :: "32 word"

text \<open>
  \<open>nextReportSecs\<close> is an unsigned difference divided by 1000; \<open>goodnight\<close> is the
  smaller of it and the sleep time cast to \<open>unsigned long\<close>.
\<close>

definition nextReportSecs :: "32 word \<Rightarrow> device \<Rightarrow> 32 word" where
  "nextReportSecs millis d = (nextHealthReportTime (myRtc d) - myMillis millis d) div 1000"

definition goodnight :: "32 word \<Rightarrow> device \<Rightarrow> 32 word" where
  "goodnight millis d = min (sleeptime (settings d)) (nextReportSecs millis d)"

definition loop :: "loop_in \<Rightarrow> device \<Rightarrow> device" where
  "loop i d0 =
     (let d = checkForCommand (command0 i) d0 in
      if halted d \<noteq> None then d
      else if settingsAreValid d \<and> sleeptime (settings d) = 0 then
        let (m, d1) = measureDistance (sensor1 i) d;
            d2 = d1\<lparr>distance := m\<rparr>;
            d3 = d2\<lparr>isPresent := (distance d2 > mindistance (settings d2)
                                  \<and> distance d2 < maxdistance (settings d2))\<rparr>;
            d4 = report (vcc1 i) (sendOk1 i) d3
        in myDelay (polls1 i) d4
      else if settingsAreValid d \<and> millis485 i - doneTimestamp d > PUBLISH_DELAY then
        let secs = goodnight (millis487 i) d;
            d1 = (if nextHealthReportTime (myRtc d) - myMillis (millis497 i) d > ONE_HOUR
                  then d\<lparr>myRtc := (myRtc d)\<lparr>nextHealthReportTime := myMillis (millis500 i) d\<rparr>\<rparr>
                  else d);
            d2 = d1\<lparr>myRtc := (myRtc d1)\<lparr>rtc := myMillis (millis504 i) d1
                                                  + sleeptime (settings d1) * 1000\<rparr>\<rparr>;
            d3 = d2\<lparr>myRtc := (myRtc d2)\<lparr>wasPresent := isPresent d2\<rparr>\<rparr>;
            d4 = saveRTC d3
        in d4\<lparr>halted := Some (DeepSleep (ucast (secs * 1000000)))\<rparr>
      else d)"


section \<open>Waking up and one wake cycle\<close>

text \<open>
  \<open>initSettings\<close> reads the RTC memory into \<open>myRtc\<close> and the EEPROM into \<open>settings\<close>; a
  maximum distance that is not positive is taken for a first power-up: the settings are
  reset and saved and the device restarts.
\<close>

definition initSettings :: "device \<Rightarrow> device" where
  "initSettings d =
     (let d1 = d\<lparr>myRtc := rtcMem d\<rparr>;
          d2 = loadSettings d1
      in if maxdistance (settings d2) \<le> 0
         then (saveSettings (initializeSettings d2))\<lparr>halted := Some Restart\<rparr>
         else d2)"

text \<open>
  \<open>initDisplay\<close>, \<open>initSensor\<close> and \<open>configureLoRa\<close> drive the display, the sensor and the
  radio. Of them the model keeps what reaches the program state: the commands polled
  during their delays, and the reset that follows a display or sensor that does not
  start.
\<close>

definition initHardware :: "command option list \<Rightarrow> bool \<Rightarrow> device \<Rightarrow> device" where
  "initHardware ps ok d =
     (let d1 = myDelay ps d
      in if halted d1 \<noteq> None then d1
         else if ok then d1 else d1\<lparr>halted := Some Restart\<rparr>)"

record setup_in =
  hwPolls :: "command option list"
  hwOk :: bool
  sensor0 :: "nat \<Rightarrow> 16 word"
  decide0 :: sendOrNot_in
  polls0 :: "command option list"

definition setup_device :: "setup_in \<Rightarrow> device \<Rightarrow> device" where
  "setup_device i d =
     (let d1 = initSettings d in
      if halted d1 \<noteq> None then d1
      else if settingsAreValid d1 then
        let d2 = initHardware (hwPolls i) (hwOk i) d1 in
        if halted d2 \<noteq> None then d2
        else
          let (m, d3) = measureDistance (sensor0 i) d2;
              d4 = d3\<lparr>distance := m\<rparr>;
              d5 = d4\<lparr>isPresent := (distance d4 > mindistance (settings d4)
                                    \<and> distance d4 < maxdistance (settings d4))\<rparr>;
              d6 = sendOrNot (decide0 i) d5
          in if halted d6 \<noteq> None then d6
             else if displayenabled (settings d6) then myDelay (polls0 i) d6 else d6
      else d1)"

text \<open>
  Waking from deep sleep, like a restart, starts the program afresh: the globals have
  their declared initial values again, the EEPROM and the RTC memory keep their contents.
\<close>

definition wake :: "device \<Rightarrow> device" where
  "wake d =
     \<lparr>settings = conf_init, settingsAreValid = False, doneTimestamp = 0, isPresent = False,
      distance = 0, myRtc = MY_RTC_init, eeprom = eeprom d, rtcMem = rtcMem d,
      rangeReads = rangeReads d, published = published d, serialOut = serialOut d,
      halted = None\<rparr>"

text \<open>After \<open>setup\<close> the run time calls \<open>loop\<close> again and again, until the program stops.\<close>

fun runLoops :: "loop_in list \<Rightarrow> device \<Rightarrow> device" where
  "runLoops [] d = d"
| "runLoops (i # is) d = (if halted d \<noteq> None then d else runLoops is (loop i d))"

record cycle_in =
  setup0 :: setup_in
  loops0 :: "loop_in list"

definition cycle :: "cycle_in \<Rightarrow> device \<Rightarrow> device" where
  "cycle ci d = runLoops (loops0 ci) (setup_device (setup0 ci) (wake d))"

text \<open>
  The device when the program starts for the first time, with given contents of the
  EEPROM and of the RTC memory: nothing has been read from the sensor or sent yet.
\<close>

definition device_init :: "conf \<Rightarrow> MY_RTC \<Rightarrow> device" where
  "device_init e r =
     \<lparr>settings = conf_init, settingsAreValid = False, doneTimestamp = 0, isPresent = False,
      distance = 0, myRtc = MY_RTC_init, eeprom = e, rtcMem = r,
      rangeReads = 0, published = [], serialOut = [], halted = None\<rparr>"


section \<open>Runs of the device\<close>

text \<open>
  The two report flags exclude each other when they are not both set.
\<close>

definition flagsExclusive :: "MY_RTC \<Rightarrow> bool" where
  "flagsExclusive r = (\<not> (presentReported r \<and> absentReported r))"

text \<open>
  The states that the device gets to from a device \<open>d0\<close>: the program runs \<open>setup\<close>, then
  \<open>loop\<close> repeatedly, and starts afresh after deep sleep or a restart. Nothing is
  required of \<open>d0\<close>: the RTC memory is read at every start without a validity check, and
  what it holds at the very first start is not written by the program.
\<close>

inductive reachable :: "device \<Rightarrow> device \<Rightarrow> bool" for d0 :: device where
  start: "reachable d0 d0"
| setup_step: "reachable d0 d \<Longrightarrow> reachable d0 (setup_device i d)"
| loop_step: "reachable d0 d \<Longrightarrow> reachable d0 (loop j d)"
| wake_step: "reachable d0 d \<Longrightarrow> reachable d0 (wake d)"

text \<open>
  The tests of \<open>loop\<close>, taken after its first \<open>checkForCommand\<close>: the call runs the
  continuous branch, or the sleeping branch.
\<close>

definition continuousBranch :: "loop_in \<Rightarrow> device \<Rightarrow> bool" where
  "continuousBranch i d0 =
     (let d = checkForCommand (command0 i) d0
      in halted d = None \<and> settingsAreValid d \<and> sleeptime (settings d) = 0)"

definition sleepBranch :: "loop_in \<Rightarrow> device \<Rightarrow> bool" where
  "sleepBranch i d0 =
     (let d = checkForCommand (command0 i) d0
      in halted d = None \<and> settingsAreValid d \<and> sleeptime (settings d) \<noteq> 0
         \<and> millis485 i - doneTimestamp d > PUBLISH_DELAY)"

text \<open>A run of wake cycles, and whether each of them handed a report to the radio.\<close>

fun runCycles :: "cycle_in list \<Rightarrow> device \<Rightarrow> device" where
  "runCycles [] d = d"
| "runCycles (c # cs) d = runCycles cs (cycle c d)"

fun reportsOf :: "cycle_in list \<Rightarrow> device \<Rightarrow> bool list" where
  "reportsOf [] d = []"
| "reportsOf (c # cs) d = (published (cycle c d) \<noteq> published d) # reportsOf cs (cycle c d)"

text \<open>
  A quiet cycle that finds presence \<open>p\<close>: the device is configured and set to sleep, no
  serial input arrives, the hardware starts, the measurement in \<open>setup\<close> gives presence
  \<open>p\<close>, the heartbeat is not due at either test of \<open>sendOrNot\<close>, and some call of \<open>loop\<close>
  finds that the publish delay has passed.
\<close>

definition noInput :: "command option list \<Rightarrow> bool" where
  "noInput ps = list_all (\<lambda>p. p = None) ps"

definition quietCycle :: "bool \<Rightarrow> cycle_in \<Rightarrow> device \<Rightarrow> bool" where
  "quietCycle p c d =
     (validConfig (eeprom d) = VALID_SETTINGS_FLAG \<and> 0 < maxdistance (eeprom d)
      \<and> sleeptime (eeprom d) \<noteq> 0
      \<and> noInput (hwPolls (setup0 c)) \<and> hwOk (setup0 c)
      \<and> noInput (polls (decide0 (setup0 c))) \<and> noInput (polls0 (setup0 c))
      \<and> list_all (\<lambda>l. command0 l = None) (loops0 c)
      \<and> list_ex (\<lambda>l. millis485 l - doneTimestamp (setup_device (setup0 c) (wake d))
                         > PUBLISH_DELAY) (loops0 c)
      \<and> isPresent (setup_device (setup0 c) (wake d)) = p
      \<and> \<not> millis544 (decide0 (setup0 c)) + rtc (rtcMem d) > nextHealthReportTime (rtcMem d)
      \<and> \<not> millis563 (decide0 (setup0 c)) + rtc (rtcMem d) > nextHealthReportTime (rtcMem d))"

fun quietRun :: "bool list \<Rightarrow> cycle_in list \<Rightarrow> device \<Rightarrow> bool" where
  "quietRun [] [] d = True"
| "quietRun (p # ps) (c # cs) d = (quietCycle p c d \<and> quietRun ps cs (cycle c d))"
| "quietRun ps cs d = False"

text \<open>
  Concrete inputs for the examples: a sensor that gives the same reading every time, a
  sensor that gives the readings of a list and fails afterwards, a box configured to
  sleep 300 s between checks with the presence window 50 mm to 400 mm,
  and a wake cycle without serial input in which \<open>sendOrNot\<close> runs one second after the
  start and \<open>loop\<close> seven seconds after it.
\<close>

definition steady :: "16 word \<Rightarrow> nat \<Rightarrow> 16 word" where
  "steady r k = r"

definition readings :: "16 word list \<Rightarrow> nat \<Rightarrow> 16 word" where
  "readings rs k = (if k < length rs then rs ! k else 0)"

definition box_conf :: conf where
  "box_conf = \<lparr>validConfig = VALID_SETTINGS_FLAG, mindistance = 50, maxdistance = 400,
     sleeptime = 300, displayenabled = False, loRaTargetAddress = 1\<rparr>"

text \<open>
  A device in the middle of a wake: \<open>setup\<close> has loaded the settings \<open>c\<close> and the retained
  state \<open>r\<close> and has found the presence \<open>p\<close>.
\<close>

definition awake :: "conf \<Rightarrow> MY_RTC \<Rightarrow> bool \<Rightarrow> device" where
  "awake c r p =
     (device_init c r)\<lparr>settings := c, settingsAreValid := True, isPresent := p, myRtc := r\<rparr>"

definition decide_at :: "32 word \<Rightarrow> bool \<Rightarrow> sendOrNot_in" where
  "decide_at t ok = \<lparr>millis544 = t, vcc = 3000, sendOk = ok, millis562 = t + 500,
     millis563 = t + 500, millis565 = t + 500, millis567 = t + 500, polls = []\<rparr>"

definition loop_at :: "32 word \<Rightarrow> 16 word \<Rightarrow> loop_in" where
  "loop_at t r = \<lparr>command0 = None, sensor1 = steady r, vcc1 = 3000, sendOk1 = True,
     polls1 = [], millis485 = t, millis487 = t, millis497 = t, millis500 = t, millis504 = t\<rparr>"

definition cycle_with :: "16 word \<Rightarrow> cycle_in" where
  "cycle_with r =
     \<lparr>setup0 = \<lparr>hwPolls = [], hwOk = True, sensor0 = steady r,
                 decide0 = decide_at 1000 True, polls0 = []\<rparr>,
      loops0 = [loop_at 7000 r]\<rparr>"


text \<open>
  A configured box at its start, with the heartbeat deadline one hour ahead, neither
  report flag set and the previous presence \<open>w\<close>; and five quiet cycles that measure
  1000, 1000, 200, 200 and 200 mm, that is absent, absent, present, present, present.
\<close>

definition quiet_start :: "bool \<Rightarrow> device" where
  "quiet_start w =
     device_init box_conf (MY_RTC_init\<lparr>nextHealthReportTime := 3600000, wasPresent := w\<rparr>)"

text \<open>
  A configured box whose RTC memory holds both report flags set at the start, with the
  heartbeat deadline one hour ahead and the previous presence true.
\<close>

definition both_flags_start :: device where
  "both_flags_start =
     device_init box_conf (MY_RTC_init\<lparr>nextHealthReportTime := 3600000, wasPresent := True,
        presentReported := True, absentReported := True\<rparr>)"

definition debounce_run :: "cycle_in list" where
  "debounce_run =
     [cycle_with 1000, cycle_with 1000, cycle_with 200, cycle_with 200, cycle_with 200]"

section \<open>Properties of the measurement\<close>

lemma fold_count_map:
  "fold (\<lambda>j c. if x = vals ! j then c + 1 else c) js c = c + count_list (map ((!) vals) js) x"
  by (induction js arbitrary: c) auto

lemma map_nth_upt_drop: "n = length vals \<Longrightarrow> map ((!) vals) [a..<n] = drop a vals"
  by (metis drop_map drop_upt map_nth add_0)

lemma candidateCount_count:
  assumes "length vals = n" "i < n"
  shows "candidateCount n vals i = count_list (drop i vals) (vals ! i)"
proof -
  have "drop i vals = vals ! i # drop (Suc i) vals"
    using assms by (simp add: Cons_nth_drop_Suc)
  moreover have "candidateCount n vals i = 1 + count_list (drop (Suc i) vals) (vals ! i)"
    using assms by (simp add: candidateCount_def fold_count_map map_nth_upt_drop)
  ultimately show ?thesis by simp
qed

lemma candidateCount_pos: "0 < candidateCount n vals i"
  by (simp add: candidateCount_def fold_count_map)

text \<open>The outer loop keeps the first index with the greatest count.\<close>

lemma first_greatest_fold:
  fixes g :: "nat \<Rightarrow> nat" and v :: "nat \<Rightarrow> int"
  assumes "0 < k" and "\<And>i. 0 < g i"
  shows "\<exists>i<k. fold (\<lambda>i (answer, answerCount).
                  if g i > answerCount then (v i, g i) else (answer, answerCount))
               [0..<k] (0, 0) = (v i, g i)
           \<and> (\<forall>j<k. g j \<le> g i) \<and> (\<forall>j<i. g j < g i)"
  using assms(1)
proof (induction k)
  case 0
  then show ?case by simp
next
  case (Suc k)
  let ?F = "\<lambda>i (answer, answerCount).
                  if g i > answerCount then (v i, g i) else (answer, answerCount)"
  show ?case
  proof (cases "k = 0")
    case True
    then show ?thesis using assms(2) [of 0] by simp
  next
    case False
    then obtain i where i: "i < k" "fold ?F [0..<k] (0, 0) = (v i, g i)"
      "\<forall>j<k. g j \<le> g i" "\<forall>j<i. g j < g i"
      using Suc.IH by auto
    show ?thesis
    proof (cases "g k > g i")
      case True
      have "fold ?F [0..<Suc k] (0, 0) = (v k, g k)"
        using i(2) True by simp
      moreover have "\<forall>j<Suc k. g j \<le> g k"
        using i(3) True by (auto simp: less_Suc_eq intro: le_trans less_imp_le)
      moreover have "\<forall>j<k. g j < g k"
        using i(3) True by (auto intro: le_less_trans)
      ultimately show ?thesis by blast
    next
      case False
      have "fold ?F [0..<Suc k] (0, 0) = (v i, g i)"
        using i(2) False by simp
      moreover have "\<forall>j<Suc k. g j \<le> g i"
        using i(3) False by (auto simp: less_Suc_eq)
      ultimately show ?thesis using i(1,4) by (metis less_Suc_eq)
    qed
  qed
qed

lemma first_occurrence:
  assumes "j < length vals"
  shows "\<exists>f\<le>j. vals ! f = vals ! j \<and> vals ! j \<notin> set (take f vals)"
proof -
  let ?P = "\<lambda>f. vals ! f = vals ! j"
  have "?P j" by simp
  then have 1: "?P (LEAST f. ?P f)" and 2: "(LEAST f. ?P f) \<le> j"
    by (rule LeastI, rule Least_le)
  have "vals ! j \<notin> set (take (LEAST f. ?P f) vals)"
  proof
    assume "vals ! j \<in> set (take (LEAST f. ?P f) vals)"
    then obtain m where m: "m < length (take (LEAST f. ?P f) vals)"
      "take (LEAST f. ?P f) vals ! m = vals ! j"
      by (auto simp: in_set_conv_nth)
    then have "m < (LEAST f. ?P f)" "?P m" by auto
    then show False using not_less_Least by blast
  qed
  with 1 2 show ?thesis by blast
qed

lemma count_first_occurrence:
  assumes "f < length vals" "vals ! f \<notin> set (take f vals)"
  shows "count_list vals (vals ! f) = count_list (drop f vals) (vals ! f)"
proof -
  have "count_list vals (vals ! f)
      = count_list (take f vals) (vals ! f) + count_list (drop f vals) (vals ! f)"
    by (metis append_take_drop_id count_list_append)
  then show ?thesis using assms(2) by (simp add: count_notin)
qed

lemma count_drop_le: "count_list (drop i vals) x \<le> count_list vals x"
  by (metis append_take_drop_id count_list_append le_add2)

lemma dominant_first_mode:
  assumes len: "length vals = n" and n: "2 \<le> n"
  shows "\<exists>i<n. dominant n vals = vals ! i
           \<and> (\<forall>j<n. count_list vals (vals ! j) \<le> count_list vals (vals ! i))
           \<and> (\<forall>j<i. count_list vals (vals ! j) < count_list vals (vals ! i))"
proof -
  let ?g = "candidateCount n vals"
  let ?t = "\<lambda>j. count_list vals (vals ! j)"
  from n have "0 < n - 1" by simp
  from first_greatest_fold [OF this, of ?g "\<lambda>i. vals ! i"] candidateCount_pos
  obtain i where i: "i < n - 1" "dominant n vals = vals ! i"
    "\<forall>j<n - 1. ?g j \<le> ?g i" "\<forall>j<i. ?g j < ?g i"
    unfolding dominant_def by fastforce
  have g_le: "?g j \<le> ?t j" if "j < n" for j
    using that len by (simp add: candidateCount_count count_drop_le)
  have first: "\<exists>f\<le>j. vals ! f = vals ! j \<and> ?g f = ?t j" if "j < n" for j
  proof -
    from first_occurrence [of j vals] that len
    obtain f where f: "f \<le> j" "vals ! f = vals ! j" "vals ! j \<notin> set (take f vals)"
      by auto
    have fn: "f < length vals" using f(1) that len by simp
    have "vals ! f \<notin> set (take f vals)" using f(2,3) by simp
    from count_first_occurrence [OF fn this] candidateCount_count [OF len, of f] fn len
    have "?t f = ?g f" by simp
    with f show ?thesis by auto
  qed
  have upper: "?t j \<le> ?g i" if "j < n" for j
  proof -
    from first [OF that] obtain f where f: "f \<le> j" "vals ! f = vals ! j" "?g f = ?t j"
      by auto
    show ?thesis
    proof (cases "f < n - 1")
      case True
      then show ?thesis using i(3) f(3) by auto
    next
      case False
      then have "f = j" "j = n - 1" using f(1) that by auto
      then have "?g f = 1"
        using len that by (simp add: candidateCount_def)
      then show ?thesis using f(3) candidateCount_pos [of n vals i] by simp
    qed
  qed
  from i(1) have in': "i < n" by simp
  have eq: "?t i = ?g i"
    using upper [OF in'] g_le [OF in'] by simp
  have below: "?t j < ?g i" if "j < i" for j
  proof -
    from that i(1) have "j < n" by simp
    from first [OF this] obtain f where f: "f \<le> j" "?g f = ?t j" by auto
    from f(1) that have "f < i" by simp
    with i(4) have "?g f < ?g i" by blast
    with f(2) show ?thesis by simp
  qed
  from in' show ?thesis using i(2) upper below eq by auto
qed

lemma getSamples_fst:
  "fst (getSamples n sensor d)
     = map (\<lambda>k. if uint (sensor (rangeReads d + k)) \<noteq> 0
                then uint (sensor (rangeReads d + k)) else - 1)
           [0..<n]"
proof (induction n arbitrary: d)
  case 0
  then show ?case by simp
next
  case (Suc n)
  have "fst (getSamples n sensor (snd (getDistance sensor d)))
      = map (\<lambda>k. if uint (sensor (rangeReads d + Suc k)) \<noteq> 0
                  then uint (sensor (rangeReads d + Suc k)) else - 1) [0..<n]"
    by (simp add: Suc.IH getDistance_def Let_def)
  then show ?case
    by (simp add: split_def Let_def upt_rec [of 0 "Suc n"] map_Suc_upt [symmetric]
        getDistance_def del: upt_Suc)
qed

lemma getSamples_snd:
  "snd (getSamples n sensor d)
     = (if n = 0 then d
        else d\<lparr>distance := uint (sensor (rangeReads d + n - 1)),
               rangeReads := rangeReads d + n\<rparr>)"
proof (induction n arbitrary: d)
  case 0
  then show ?case by simp
next
  case (Suc n)
  then show ?case
    by (cases "n = 0") (simp_all add: split_def Let_def getDistance_def)
qed

lemma measureDistance_snd:
  "snd (measureDistance sensor d)
     = d\<lparr>distance := uint (sensor (rangeReads d + SAMPLE_COUNT - 1)),
          rangeReads := rangeReads d + SAMPLE_COUNT\<rparr>"
  by (simp add: measureDistance_def split_def Let_def getSamples_snd SAMPLE_COUNT_def)

lemma measureDistance_fst:
  "fst (measureDistance sensor d) = dominant SAMPLE_COUNT (fst (getSamples SAMPLE_COUNT sensor d))"
  by (simp add: measureDistance_def split_def Let_def)



text \<open>
  C6. \<open>measure\<close> takes exactly \<open>SAMPLE_COUNT\<close> = 5 readings. Its result is one of the five
  sampled values (a failed reading counting as \<open>-1\<close>), no sampled value occurs more often
  than it among the five, and every value sampled before its first occurrence occurs
  strictly less often: among the most frequent values the one sampled first wins. On
  the samples 100, 100, 105, 105, 0 and on 100, 100, 100, 105, 999 the vote yields 100.
\<close>

theorem measure_plurality_vote:
  "SAMPLE_COUNT = 5
   \<and> rangeReads (snd (measureDistance sensor d)) = rangeReads d + SAMPLE_COUNT
   \<and> (let vals = map (\<lambda>k. if uint (sensor (rangeReads d + k)) \<noteq> 0
                            then uint (sensor (rangeReads d + k)) else - 1)
                      [0..<SAMPLE_COUNT]
      in \<exists>i<SAMPLE_COUNT. fst (measureDistance sensor d) = vals ! i
           \<and> (\<forall>j<SAMPLE_COUNT. count_list vals (vals ! j) \<le> count_list vals (vals ! i))
           \<and> (\<forall>j<i. count_list vals (vals ! j) < count_list vals (vals ! i)))
   \<and> dominant SAMPLE_COUNT [100, 100, 105, 105, 0] = 100
   \<and> dominant SAMPLE_COUNT [100, 100, 100, 105, 999] = 100"
proof -
  let ?vals = "fst (getSamples SAMPLE_COUNT sensor d)"
  have len: "length ?vals = SAMPLE_COUNT" by (simp add: getSamples_fst)
  have "2 \<le> SAMPLE_COUNT" by (simp add: SAMPLE_COUNT_def)
  from dominant_first_mode [OF len this]
  have "\<exists>i<SAMPLE_COUNT. fst (measureDistance sensor d) = ?vals ! i
           \<and> (\<forall>j<SAMPLE_COUNT. count_list ?vals (?vals ! j) \<le> count_list ?vals (?vals ! i))
           \<and> (\<forall>j<i. count_list ?vals (?vals ! j) < count_list ?vals (?vals ! i))"
    by (simp only: measureDistance_fst)
  then have vote: "let vals = map (\<lambda>k. if uint (sensor (rangeReads d + k)) \<noteq> 0
                            then uint (sensor (rangeReads d + k)) else - 1)
                      [0..<SAMPLE_COUNT]
      in \<exists>i<SAMPLE_COUNT. fst (measureDistance sensor d) = vals ! i
           \<and> (\<forall>j<SAMPLE_COUNT. count_list vals (vals ! j) \<le> count_list vals (vals ! i))
           \<and> (\<forall>j<i. count_list vals (vals ! j) < count_list vals (vals ! i))"
    unfolding Let_def getSamples_fst .
  have reads: "rangeReads (snd (measureDistance sensor d)) = rangeReads d + SAMPLE_COUNT"
    by (simp add: measureDistance_snd)
  have e1: "dominant SAMPLE_COUNT [100, 100, 105, 105, 0] = 100"
    by (simp add: dominant_def candidateCount_def SAMPLE_COUNT_def upt_rec)
  have e2: "dominant SAMPLE_COUNT [100, 100, 100, 105, 999] = 100"
    by (simp add: dominant_def candidateCount_def SAMPLE_COUNT_def upt_rec)
  show ?thesis using vote reads e1 e2 by (simp add: SAMPLE_COUNT_def)
qed

theorem measure_plurality_vote_witness:
  "rangeReads (snd (measureDistance (readings [100, 100, 105, 105, 0])
       (device_init conf_init MY_RTC_init))) = 5
   \<and> fst (measureDistance (readings [100, 100, 105, 105, 0])
       (device_init conf_init MY_RTC_init)) = 100"
  using measure_plurality_vote [of "readings [100, 100, 105, 105, 0]"
      "device_init conf_init MY_RTC_init"]
  by (simp add: measureDistance_fst getSamples_fst device_init_def dominant_def
      candidateCount_def SAMPLE_COUNT_def upt_rec readings_def)





section \<open>Properties of the report decision\<close>

lemma saveSettings_keeps:
  "myRtc (saveSettings d) = myRtc d" "rtcMem (saveSettings d) = rtcMem d"
  "published (saveSettings d) = published d" "serialOut (saveSettings d) = serialOut d"
  "isPresent (saveSettings d) = isPresent d" "distance (saveSettings d) = distance d"
  "doneTimestamp (saveSettings d) = doneTimestamp d" "rangeReads (saveSettings d) = rangeReads d"
  by (simp_all add: saveSettings_def Let_def)

lemma processCommand_keeps:
  "myRtc (processCommand c d) = myRtc d" "rtcMem (processCommand c d) = rtcMem d"
  "published (processCommand c d) = published d" "serialOut (processCommand c d) = serialOut d"
  "isPresent (processCommand c d) = isPresent d" "distance (processCommand c d) = distance d"
  "doneTimestamp (processCommand c d) = doneTimestamp d"
  "rangeReads (processCommand c d) = rangeReads d"
  by (cases c; simp add: saveSettings_keeps initializeSettings_def)+

lemma checkForCommand_keeps:
  "myRtc (checkForCommand p d) = myRtc d" "rtcMem (checkForCommand p d) = rtcMem d"
  "published (checkForCommand p d) = published d" "serialOut (checkForCommand p d) = serialOut d"
  "isPresent (checkForCommand p d) = isPresent d" "distance (checkForCommand p d) = distance d"
  "doneTimestamp (checkForCommand p d) = doneTimestamp d"
  "rangeReads (checkForCommand p d) = rangeReads d"
  by (simp_all add: checkForCommand_def processCommand_keeps split: option.split)

lemma myDelay_keeps:
  "myRtc (myDelay ps d) = myRtc d" "rtcMem (myDelay ps d) = rtcMem d"
  "published (myDelay ps d) = published d" "serialOut (myDelay ps d) = serialOut d"
  "isPresent (myDelay ps d) = isPresent d" "distance (myDelay ps d) = distance d"
  "doneTimestamp (myDelay ps d) = doneTimestamp d"
  "rangeReads (myDelay ps d) = rangeReads d"
  by (induction ps arbitrary: d; simp add: Let_def checkForCommand_keeps)+

lemma myDelay_noInput: "noInput ps \<Longrightarrow> myDelay ps d = d"
  by (induction ps) (simp_all add: noInput_def checkForCommand_def Let_def)

lemma report_published:
  "published (report v ok d)
     = published d @ [(loRaTargetAddress (settings d),
         \<lparr>r_distance = distance d, r_battery = v, r_isPresent = isPresent d\<rparr>)]"
  by (simp add: report_def publish_def Let_def)

lemma report_keeps:
  "myRtc (report v ok d) = myRtc d" "rtcMem (report v ok d) = rtcMem d"
  "isPresent (report v ok d) = isPresent d" "distance (report v ok d) = distance d"
  "settings (report v ok d) = settings d" "halted (report v ok d) = halted d"
  "settingsAreValid (report v ok d) = settingsAreValid d"
  "doneTimestamp (report v ok d) = doneTimestamp d" "rangeReads (report v ok d) = rangeReads d"
  "eeprom (report v ok d) = eeprom d"
  by (simp_all add: report_def publish_def Let_def)

text \<open>The test of \<open>sendOrNot\<close>, and what the function leaves in the retained state.\<close>

lemma sendOrNot_published:
  "published (sendOrNot i d)
     = (if myMillis (millis544 i) d > nextHealthReportTime (myRtc d)
           \<or> (\<not> wasPresent (myRtc d) \<and> \<not> isPresent d \<and> \<not> absentReported (myRtc d))
           \<or> (wasPresent (myRtc d) \<and> isPresent d \<and> \<not> presentReported (myRtc d))
        then published d @ [(loRaTargetAddress (settings d),
               \<lparr>r_distance = distance d, r_battery = vcc i, r_isPresent = isPresent d\<rparr>)]
        else published d)"
  by (simp add: sendOrNot_def Let_def myDelay_keeps report_published)

lemma sendOrNot_flags:
  "presentReported (myRtc (sendOrNot i d))
     = (if published (sendOrNot i d) \<noteq> published d then isPresent d
        else presentReported (myRtc d))"
  "absentReported (myRtc (sendOrNot i d))
     = (if published (sendOrNot i d) \<noteq> published d then \<not> isPresent d
        else absentReported (myRtc d))"
  "wasPresent (myRtc (sendOrNot i d)) = wasPresent (myRtc d)"
  "isPresent (sendOrNot i d) = isPresent d"
  "rtcMem (sendOrNot i d) = rtcMem d"
  by (simp_all add: sendOrNot_published)
     (simp_all add: sendOrNot_def Let_def myDelay_keeps report_keeps)

text \<open>
  Serial commands read and write only the settings, their validity, the EEPROM and the
  halt state.
\<close>

lemma checkForCommand_config:
  assumes "settings d1 = settings d2" "settingsAreValid d1 = settingsAreValid d2"
    "eeprom d1 = eeprom d2" "halted d1 = halted d2"
  shows "settings (checkForCommand p d1) = settings (checkForCommand p d2)
       \<and> settingsAreValid (checkForCommand p d1) = settingsAreValid (checkForCommand p d2)
       \<and> eeprom (checkForCommand p d1) = eeprom (checkForCommand p d2)
       \<and> halted (checkForCommand p d1) = halted (checkForCommand p d2)"
proof (cases p)
  case None
  then show ?thesis using assms by (simp add: checkForCommand_def)
next
  case (Some c)
  then show ?thesis using assms
    by (cases c) (simp_all add: checkForCommand_def saveSettings_def initializeSettings_def Let_def)
qed

lemma myDelay_config:
  assumes "settings d1 = settings d2" "settingsAreValid d1 = settingsAreValid d2"
    "eeprom d1 = eeprom d2" "halted d1 = halted d2"
  shows "settings (myDelay ps d1) = settings (myDelay ps d2)
       \<and> settingsAreValid (myDelay ps d1) = settingsAreValid (myDelay ps d2)
       \<and> eeprom (myDelay ps d1) = eeprom (myDelay ps d2)
       \<and> halted (myDelay ps d1) = halted (myDelay ps d2)"
  using assms
proof (induction ps arbitrary: d1 d2)
  case Nil
  then show ?case by simp
next
  case (Cons p ps)
  from checkForCommand_config [OF Cons.prems, of p]
  have c: "settings (checkForCommand p d1) = settings (checkForCommand p d2)"
    "settingsAreValid (checkForCommand p d1) = settingsAreValid (checkForCommand p d2)"
    "eeprom (checkForCommand p d1) = eeprom (checkForCommand p d2)"
    "halted (checkForCommand p d1) = halted (checkForCommand p d2)"
    by simp_all
  show ?case
  proof (cases "halted (checkForCommand p d2) = None")
    case True
    with c Cons.IH [OF c] show ?thesis by (simp add: Let_def)
  next
    case False
    with c show ?thesis by (simp add: Let_def)
  qed
qed

lemma sendOrNot_myRtc:
  "myRtc (sendOrNot i d)
     = (if published (sendOrNot i d) \<noteq> published d
        then (myRtc d)\<lparr>presentReported := isPresent d, absentReported := \<not> isPresent d,
               rtc := (if myMillis (millis563 i) d > nextHealthReportTime (myRtc d)
                       then millis565 i else rtc (myRtc d)),
               nextHealthReportTime :=
                 millis567 i + (if myMillis (millis563 i) d > nextHealthReportTime (myRtc d)
                                then millis565 i else rtc (myRtc d)) + ONE_HOUR\<rparr>
        else myRtc d)"
  by (simp add: sendOrNot_published)
     (simp add: sendOrNot_def Let_def myDelay_keeps report_keeps myMillis_def)

lemma sendOrNot_keeps:
  "distance (sendOrNot i d) = distance d" "rangeReads (sendOrNot i d) = rangeReads d"
  "doneTimestamp (sendOrNot i d)
     = (if published (sendOrNot i d) \<noteq> published d then millis562 i else doneTimestamp d)"
  by (simp_all add: sendOrNot_published)
     (simp_all add: sendOrNot_def Let_def myDelay_keeps report_keeps)

lemma sendOrNot_config:
  "settings (sendOrNot i d)
     = (if published (sendOrNot i d) \<noteq> published d then settings (myDelay (polls i) d)
        else settings d)"
  "settingsAreValid (sendOrNot i d)
     = (if published (sendOrNot i d) \<noteq> published d then settingsAreValid (myDelay (polls i) d)
        else settingsAreValid d)"
  "eeprom (sendOrNot i d)
     = (if published (sendOrNot i d) \<noteq> published d then eeprom (myDelay (polls i) d)
        else eeprom d)"
  "halted (sendOrNot i d)
     = (if published (sendOrNot i d) \<noteq> published d then halted (myDelay (polls i) d)
        else halted d)"
proof -
  let ?d5 = "\<lambda>d1. let
            d2 = (if isPresent d1
                  then d1\<lparr>myRtc := (myRtc d1)\<lparr>presentReported := True, absentReported := False\<rparr>\<rparr>
                  else d1\<lparr>myRtc := (myRtc d1)\<lparr>absentReported := True, presentReported := False\<rparr>\<rparr>);
            d3 = d2\<lparr>doneTimestamp := millis562 i\<rparr>;
            d4 = (if myMillis (millis563 i) d3 > nextHealthReportTime (myRtc d3)
                  then d3\<lparr>myRtc := (myRtc d3)\<lparr>rtc := millis565 i\<rparr>\<rparr>
                  else d3);
            d5 = d4\<lparr>myRtc := (myRtc d4)\<lparr>nextHealthReportTime := myMillis (millis567 i) d4 + ONE_HOUR\<rparr>\<rparr>
        in d5"
  have same: "settings (?d5 (report (vcc i) (sendOk i) d)) = settings d"
    "settingsAreValid (?d5 (report (vcc i) (sendOk i) d)) = settingsAreValid d"
    "eeprom (?d5 (report (vcc i) (sendOk i) d)) = eeprom d"
    "halted (?d5 (report (vcc i) (sendOk i) d)) = halted d"
    by (simp_all add: Let_def report_keeps)
  note c = myDelay_config [OF same, of "polls i"]
  show "settings (sendOrNot i d)
     = (if published (sendOrNot i d) \<noteq> published d then settings (myDelay (polls i) d)
        else settings d)"
    using c by (simp add: sendOrNot_published) (simp add: sendOrNot_def Let_def)
  show "settingsAreValid (sendOrNot i d)
     = (if published (sendOrNot i d) \<noteq> published d then settingsAreValid (myDelay (polls i) d)
        else settingsAreValid d)"
    using c by (simp add: sendOrNot_published) (simp add: sendOrNot_def Let_def)
  show "eeprom (sendOrNot i d)
     = (if published (sendOrNot i d) \<noteq> published d then eeprom (myDelay (polls i) d)
        else eeprom d)"
    using c by (simp add: sendOrNot_published) (simp add: sendOrNot_def Let_def)
  show "halted (sendOrNot i d)
     = (if published (sendOrNot i d) \<noteq> published d then halted (myDelay (polls i) d)
        else halted d)"
    using c by (simp add: sendOrNot_published) (simp add: sendOrNot_def Let_def)
qed

lemma awake_fields:
  "settings (awake c r p) = c" "settingsAreValid (awake c r p)" "isPresent (awake c r p) = p"
  "myRtc (awake c r p) = r" "halted (awake c r p) = None" "doneTimestamp (awake c r p) = 0"
  "published (awake c r p) = []" "rangeReads (awake c r p) = 0" "rtcMem (awake c r p) = r"
  "eeprom (awake c r p) = c" "distance (awake c r p) = 0" "serialOut (awake c r p) = []"
  by (simp_all add: awake_def device_init_def)

lemma decide_at_fields:
  "millis544 (decide_at t ok) = t" "vcc (decide_at t ok) = 3000" "sendOk (decide_at t ok) = ok"
  "millis562 (decide_at t ok) = t + 500" "millis563 (decide_at t ok) = t + 500"
  "millis565 (decide_at t ok) = t + 500" "millis567 (decide_at t ok) = t + 500"
  "polls (decide_at t ok) = []"
  by (simp_all add: decide_at_def)

lemma sendOrNot_serialOut:
  "serialOut (sendOrNot i d)
     = (if published (sendOrNot i d) \<noteq> published d
        then serialOut d @ [if sendOk i then ''Sending data successful.''
                            else ''Sending data failed!'']
        else serialOut d)"
  by (simp add: sendOrNot_published)
     (simp add: sendOrNot_def Let_def myDelay_keeps report_def publish_def)

text \<open>
  C9. When a report is due (the heartbeat deadline is passed, or absence or presence is
  confirmed and not yet reported), \<open>sendOrNot\<close> hands exactly one message to the radio,
  and the result \<open>b\<close> of \<open>lora.send\<close> decides nothing but the line printed on the serial
  port: \<open>Sending data failed!\<close> for a failure. Whatever \<open>b\<close> is, the flag of the current
  presence is set and the other cleared, the heartbeat deadline is put one hour after the
  logical time, \<open>doneTimestamp\<close> is taken, and the program goes on (it stops only if a
  serial command restarts it). Up to the serial output the device after a failed publish
  is the device after a successful one; there is no second attempt.
\<close>

theorem publish_failure_not_fatal:
  "(myMillis (millis544 i) d > nextHealthReportTime (myRtc d)
      \<or> (\<not> wasPresent (myRtc d) \<and> \<not> isPresent d \<and> \<not> absentReported (myRtc d))
      \<or> (wasPresent (myRtc d) \<and> isPresent d \<and> \<not> presentReported (myRtc d))
    \<longrightarrow>
      published (sendOrNot (i\<lparr>sendOk := b\<rparr>) d)
        = published d @ [(loRaTargetAddress (settings d),
            \<lparr>r_distance = distance d, r_battery = vcc i, r_isPresent = isPresent d\<rparr>)]
      \<and> serialOut (sendOrNot (i\<lparr>sendOk := b\<rparr>) d)
        = serialOut d @ [if b then ''Sending data successful.'' else ''Sending data failed!'']
      \<and> myRtc (sendOrNot (i\<lparr>sendOk := b\<rparr>) d)
        = (myRtc d)\<lparr>presentReported := isPresent d, absentReported := \<not> isPresent d,
             rtc := (if myMillis (millis563 i) d > nextHealthReportTime (myRtc d)
                     then millis565 i else rtc (myRtc d)),
             nextHealthReportTime :=
               millis567 i + (if myMillis (millis563 i) d > nextHealthReportTime (myRtc d)
                              then millis565 i else rtc (myRtc d)) + ONE_HOUR\<rparr>
      \<and> doneTimestamp (sendOrNot (i\<lparr>sendOk := b\<rparr>) d) = millis562 i
      \<and> (noInput (polls i) \<longrightarrow> halted (sendOrNot (i\<lparr>sendOk := b\<rparr>) d) = halted d))
   \<and> (sendOrNot (i\<lparr>sendOk := False\<rparr>) d)\<lparr>serialOut := []\<rparr>
       = (sendOrNot (i\<lparr>sendOk := True\<rparr>) d)\<lparr>serialOut := []\<rparr>
   \<and> myRtc (sendOrNot (i\<lparr>sendOk := False\<rparr>) d) = myRtc (sendOrNot (i\<lparr>sendOk := True\<rparr>) d)
   \<and> length (published (sendOrNot i d)) \<le> length (published d) + 1
   \<and> (published (sendOrNot i d) \<noteq> published d \<longrightarrow>
        presentReported (myRtc (sendOrNot i d)) = isPresent d
        \<and> absentReported (myRtc (sendOrNot i d)) = (\<not> isPresent d)
        \<and> nextHealthReportTime (myRtc (sendOrNot i d))
            = myMillis (millis567 i) (sendOrNot i d) + ONE_HOUR)"
proof -
  let ?f = "sendOrNot (i\<lparr>sendOk := False\<rparr>) d" and ?t = "sendOrNot (i\<lparr>sendOk := True\<rparr>) d"
  let ?b = "sendOrNot (i\<lparr>sendOk := b\<rparr>) d"
  let ?due = "myMillis (millis544 i) d > nextHealthReportTime (myRtc d)
      \<or> (\<not> wasPresent (myRtc d) \<and> \<not> isPresent d \<and> \<not> absentReported (myRtc d))
      \<or> (wasPresent (myRtc d) \<and> isPresent d \<and> \<not> presentReported (myRtc d))"
  have due: "?due \<longrightarrow>
      published ?b
        = published d @ [(loRaTargetAddress (settings d),
            \<lparr>r_distance = distance d, r_battery = vcc i, r_isPresent = isPresent d\<rparr>)]
      \<and> serialOut ?b
        = serialOut d @ [if b then ''Sending data successful.'' else ''Sending data failed!'']
      \<and> myRtc ?b
        = (myRtc d)\<lparr>presentReported := isPresent d, absentReported := \<not> isPresent d,
             rtc := (if myMillis (millis563 i) d > nextHealthReportTime (myRtc d)
                     then millis565 i else rtc (myRtc d)),
             nextHealthReportTime :=
               millis567 i + (if myMillis (millis563 i) d > nextHealthReportTime (myRtc d)
                              then millis565 i else rtc (myRtc d)) + ONE_HOUR\<rparr>
      \<and> doneTimestamp ?b = millis562 i
      \<and> (noInput (polls i) \<longrightarrow> halted ?b = halted d)"
  proof
    assume a: ?due
    then have p: "published ?b
        = published d @ [(loRaTargetAddress (settings d),
            \<lparr>r_distance = distance d, r_battery = vcc i, r_isPresent = isPresent d\<rparr>)]"
      by (simp add: sendOrNot_published)
    then have ne: "published ?b \<noteq> published d" by simp
    have so: "serialOut ?b
        = serialOut d @ [if b then ''Sending data successful.'' else ''Sending data failed!'']"
      using ne by (simp add: sendOrNot_serialOut)
    have rt: "myRtc ?b
        = (myRtc d)\<lparr>presentReported := isPresent d, absentReported := \<not> isPresent d,
             rtc := (if myMillis (millis563 i) d > nextHealthReportTime (myRtc d)
                     then millis565 i else rtc (myRtc d)),
             nextHealthReportTime :=
               millis567 i + (if myMillis (millis563 i) d > nextHealthReportTime (myRtc d)
                              then millis565 i else rtc (myRtc d)) + ONE_HOUR\<rparr>"
      using ne by (simp add: sendOrNot_myRtc)
    have dt: "doneTimestamp ?b = millis562 i"
      using ne by (simp add: sendOrNot_keeps)
    have ht: "noInput (polls i) \<longrightarrow> halted ?b = halted d"
      by (simp add: sendOrNot_config myDelay_noInput)
    from p so rt dt ht show "published ?b
        = published d @ [(loRaTargetAddress (settings d),
            \<lparr>r_distance = distance d, r_battery = vcc i, r_isPresent = isPresent d\<rparr>)]
      \<and> serialOut ?b
        = serialOut d @ [if b then ''Sending data successful.'' else ''Sending data failed!'']
      \<and> myRtc ?b
        = (myRtc d)\<lparr>presentReported := isPresent d, absentReported := \<not> isPresent d,
             rtc := (if myMillis (millis563 i) d > nextHealthReportTime (myRtc d)
                     then millis565 i else rtc (myRtc d)),
             nextHealthReportTime :=
               millis567 i + (if myMillis (millis563 i) d > nextHealthReportTime (myRtc d)
                              then millis565 i else rtc (myRtc d)) + ONE_HOUR\<rparr>
      \<and> doneTimestamp ?b = millis562 i
      \<and> (noInput (polls i) \<longrightarrow> halted ?b = halted d)"
      by blast
  qed
  have pub: "published ?f = published ?t"
    by (simp add: sendOrNot_published)
  have rtc: "myRtc ?f = myRtc ?t"
    by (simp add: sendOrNot_myRtc sendOrNot_published)
  have eq: "?f\<lparr>serialOut := []\<rparr> = ?t\<lparr>serialOut := []\<rparr>"
  proof (rule device.equality)
    show "settings (?f\<lparr>serialOut := []\<rparr>) = settings (?t\<lparr>serialOut := []\<rparr>)"
      by (simp add: sendOrNot_config sendOrNot_published)
    show "settingsAreValid (?f\<lparr>serialOut := []\<rparr>) = settingsAreValid (?t\<lparr>serialOut := []\<rparr>)"
      by (simp add: sendOrNot_config sendOrNot_published)
    show "eeprom (?f\<lparr>serialOut := []\<rparr>) = eeprom (?t\<lparr>serialOut := []\<rparr>)"
      by (simp add: sendOrNot_config sendOrNot_published)
    show "halted (?f\<lparr>serialOut := []\<rparr>) = halted (?t\<lparr>serialOut := []\<rparr>)"
      by (simp add: sendOrNot_config sendOrNot_published)
    show "doneTimestamp (?f\<lparr>serialOut := []\<rparr>) = doneTimestamp (?t\<lparr>serialOut := []\<rparr>)"
      by (simp add: sendOrNot_keeps sendOrNot_published)
    show "myRtc (?f\<lparr>serialOut := []\<rparr>) = myRtc (?t\<lparr>serialOut := []\<rparr>)"
      using rtc by simp
    show "published (?f\<lparr>serialOut := []\<rparr>) = published (?t\<lparr>serialOut := []\<rparr>)"
      using pub by simp
  qed (simp_all add: sendOrNot_keeps sendOrNot_flags)
  have once: "length (published (sendOrNot i d)) \<le> length (published d) + 1"
    by (simp add: sendOrNot_published)
  have marks: "published (sendOrNot i d) \<noteq> published d \<longrightarrow>
        presentReported (myRtc (sendOrNot i d)) = isPresent d
        \<and> absentReported (myRtc (sendOrNot i d)) = (\<not> isPresent d)
        \<and> nextHealthReportTime (myRtc (sendOrNot i d))
            = myMillis (millis567 i) (sendOrNot i d) + ONE_HOUR"
    by (simp add: sendOrNot_myRtc myMillis_def)
  from due eq rtc once marks show ?thesis by blast
qed

theorem publish_failure_not_fatal_witness:
  "nextHealthReportTime (myRtc (awake box_conf MY_RTC_init False))
     < myMillis (millis544 (decide_at 1000 True)) (awake box_conf MY_RTC_init False)
   \<and> published (sendOrNot (decide_at 1000 False) (awake box_conf MY_RTC_init False))
       = [(1, \<lparr>r_distance = 0, r_battery = 3000, r_isPresent = False\<rparr>)]
   \<and> serialOut (sendOrNot (decide_at 1000 False) (awake box_conf MY_RTC_init False))
       = [''Sending data failed!'']
   \<and> absentReported (myRtc (sendOrNot (decide_at 1000 False) (awake box_conf MY_RTC_init False)))
   \<and> \<not> presentReported (myRtc (sendOrNot (decide_at 1000 False) (awake box_conf MY_RTC_init False)))
   \<and> nextHealthReportTime (myRtc (sendOrNot (decide_at 1000 False)
         (awake box_conf MY_RTC_init False))) = 3603000
   \<and> halted (sendOrNot (decide_at 1000 False) (awake box_conf MY_RTC_init False)) = None
   \<and> myRtc (sendOrNot (decide_at 1000 False) (awake box_conf MY_RTC_init False))
       = myRtc (sendOrNot (decide_at 1000 True) (awake box_conf MY_RTC_init False))"
proof -
  let ?i = "decide_at 1000 True" and ?d = "awake box_conf MY_RTC_init False"
  let ?f = "sendOrNot (decide_at 1000 False) ?d"
  have f: "?i\<lparr>sendOk := False\<rparr> = decide_at 1000 False" "?i\<lparr>sendOk := True\<rparr> = ?i"
    by (simp_all add: decide_at_def)
  have due: "nextHealthReportTime (myRtc ?d) < myMillis (millis544 ?i) ?d"
    by (simp add: myMillis_def decide_at_fields awake_fields MY_RTC_init_def)
  have ni: "noInput (polls ?i)"
    by (simp add: decide_at_fields noInput_def)
  note t = publish_failure_not_fatal [where i = ?i and d = ?d and b = False, unfolded f]
  from t due have p: "published ?f
        = published ?d @ [(loRaTargetAddress (settings ?d),
            \<lparr>r_distance = distance ?d, r_battery = vcc ?i, r_isPresent = isPresent ?d\<rparr>)]"
    by blast
  from t due have so: "serialOut ?f
        = serialOut ?d @ [if False then ''Sending data successful.'' else ''Sending data failed!'']"
    by blast
  from t due have rt: "myRtc ?f
        = (myRtc ?d)\<lparr>presentReported := isPresent ?d, absentReported := \<not> isPresent ?d,
             rtc := (if myMillis (millis563 ?i) ?d > nextHealthReportTime (myRtc ?d)
                     then millis565 ?i else rtc (myRtc ?d)),
             nextHealthReportTime :=
               millis567 ?i + (if myMillis (millis563 ?i) ?d > nextHealthReportTime (myRtc ?d)
                              then millis565 ?i else rtc (myRtc ?d)) + ONE_HOUR\<rparr>"
    by blast
  from t due ni have h: "halted ?f = halted ?d"
    by blast
  from t have e: "myRtc ?f = myRtc (sendOrNot ?i ?d)"
    by blast
  show ?thesis
  proof (intro conjI)
    show "nextHealthReportTime (myRtc ?d) < myMillis (millis544 ?i) ?d" by (rule due)
    show "published ?f = [(1, \<lparr>r_distance = 0, r_battery = 3000, r_isPresent = False\<rparr>)]"
      unfolding p by (simp add: awake_fields decide_at_fields box_conf_def)
    show "serialOut ?f = [''Sending data failed!'']"
      unfolding so by (simp add: awake_fields)
    show "absentReported (myRtc ?f)" unfolding rt by (simp add: awake_fields)
    show "\<not> presentReported (myRtc ?f)" unfolding rt by (simp add: awake_fields)
    show "nextHealthReportTime (myRtc ?f) = 3603000"
      unfolding rt
      by (simp add: awake_fields decide_at_fields myMillis_def MY_RTC_init_def ONE_HOUR_def)
    show "halted ?f = None" unfolding h by (simp add: awake_fields)
    show "myRtc ?f = myRtc (sendOrNot ?i ?d)" by (rule e)
  qed
qed


section \<open>Properties of the main loop\<close>

lemma loop_sleep:
  assumes "sleepBranch i d0"
  shows "loop i d0 =
     (checkForCommand (command0 i) d0)
       \<lparr>myRtc := (myRtc d0)
          \<lparr>nextHealthReportTime :=
             (if nextHealthReportTime (myRtc d0) - myMillis (millis497 i) d0 > ONE_HOUR
              then myMillis (millis500 i) d0 else nextHealthReportTime (myRtc d0)),
           rtc := myMillis (millis504 i) d0
                  + sleeptime (settings (checkForCommand (command0 i) d0)) * 1000,
           wasPresent := isPresent d0\<rparr>,
        rtcMem := (myRtc d0)
          \<lparr>nextHealthReportTime :=
             (if nextHealthReportTime (myRtc d0) - myMillis (millis497 i) d0 > ONE_HOUR
              then myMillis (millis500 i) d0 else nextHealthReportTime (myRtc d0)),
           rtc := myMillis (millis504 i) d0
                  + sleeptime (settings (checkForCommand (command0 i) d0)) * 1000,
           wasPresent := isPresent d0\<rparr>,
        halted := Some (DeepSleep (ucast (goodnight (millis487 i)
                    (checkForCommand (command0 i) d0) * 1000000)))\<rparr>"
  using assms
  by (simp add: sleepBranch_def loop_def Let_def saveRTC_def myMillis_def checkForCommand_keeps
      cong: if_cong)

lemma loop_continuous:
  assumes "continuousBranch i d0"
  shows "loop i d0 =
     myDelay (polls1 i) (report (vcc1 i) (sendOk1 i)
       ((checkForCommand (command0 i) d0)
          \<lparr>rangeReads := rangeReads d0 + SAMPLE_COUNT,
           distance := fst (measureDistance (sensor1 i) d0),
           isPresent :=
             (mindistance (settings (checkForCommand (command0 i) d0))
                < fst (measureDistance (sensor1 i) d0)
              \<and> fst (measureDistance (sensor1 i) d0)
                < maxdistance (settings (checkForCommand (command0 i) d0)))\<rparr>))"
proof -
  let ?d = "checkForCommand (command0 i) d0"
  have m: "fst (measureDistance (sensor1 i) ?d) = fst (measureDistance (sensor1 i) d0)"
    by (simp add: measureDistance_fst getSamples_fst checkForCommand_keeps cong: if_cong)
  have "loop i d0 = (let (m, d1) = measureDistance (sensor1 i) ?d;
            d2 = d1\<lparr>distance := m\<rparr>;
            d3 = d2\<lparr>isPresent := (distance d2 > mindistance (settings d2)
                                  \<and> distance d2 < maxdistance (settings d2))\<rparr>;
            d4 = report (vcc1 i) (sendOk1 i) d3
        in myDelay (polls1 i) d4)"
    using assms by (simp add: continuousBranch_def loop_def Let_def)
  then show ?thesis
    by (simp add: split_def Let_def measureDistance_snd m checkForCommand_keeps)
qed

lemma loop_idle:
  assumes "\<not> continuousBranch i d0" "\<not> sleepBranch i d0"
  shows "loop i d0 = checkForCommand (command0 i) d0"
  using assms
  by (auto simp: sleepBranch_def continuousBranch_def loop_def Let_def)

lemma loop_at_fields:
  "command0 (loop_at t r) = None" "millis485 (loop_at t r) = t" "millis487 (loop_at t r) = t"
  "millis497 (loop_at t r) = t" "millis500 (loop_at t r) = t" "millis504 (loop_at t r) = t"
  "sensor1 (loop_at t r) = steady r" "vcc1 (loop_at t r) = 3000" "sendOk1 (loop_at t r)"
  "polls1 (loop_at t r) = []"
  by (simp_all add: loop_at_def)

lemma sleepBranch_awake:
  "sleepBranch (loop_at t r) (awake c m p) = (sleeptime c \<noteq> 0 \<and> t > PUBLISH_DELAY)"
  by (simp add: sleepBranch_def loop_at_fields awake_fields checkForCommand_def)

lemma word_less_add_no_wrap:
  fixes x y :: "32 word"
  assumes "0 < y" "unat x + unat y < 2 ^ 32"
  shows "x < x + y"
proof -
  have "unat (x + y) = unat x + unat y"
    using assms(2) unat_add_lem [of x y] by simp
  moreover have "0 < unat y"
    using assms(1) by (simp add: word_less_nat_alt)
  ultimately show ?thesis by (simp add: word_less_nat_alt)
qed

text \<open>
  C2, as the code has it. When \<open>loop\<close> takes its sleeping branch (after the report
  decision of the same wake) and finds the heartbeat deadline more than one hour ahead
  of the logical time, in unsigned 32-bit arithmetic, it sets the deadline to the
  current logical time itself, not to one hour later, and saves it to the RTC memory.
  At the next wake, \<open>sendOrNot\<close> runs on a device \<open>d'\<close> that has loaded this RTC memory;
  the logical time it reads is that of the reset plus \<open>elapsed\<close> (the time between the
  reset and the saving of the offset, the configured sleep time, and the time since the
  wake). If the logical time has moved on and has not wrapped around \<open>2 ^ 32\<close> since the
  reset, the heartbeat is due, a report is sent, and the deadline is put one hour after
  the logical time.
\<close>

theorem bogus_deadline_reset:
  "sleepBranch i d0
   \<and> nextHealthReportTime (myRtc d0) - myMillis (millis497 i) d0 > ONE_HOUR
   \<longrightarrow> nextHealthReportTime (myRtc (loop i d0)) = myMillis (millis500 i) d0
       \<and> nextHealthReportTime (rtcMem (loop i d0)) = myMillis (millis500 i) d0
       \<and> (myRtc d' = rtcMem (loop i d0)
            \<and> elapsed = millis544 j + (millis504 i - millis500 i)
                          + sleeptime (settings (checkForCommand (command0 i) d0)) * 1000
            \<and> 0 < elapsed
            \<and> unat (myMillis (millis500 i) d0) + unat elapsed < 2 ^ 32
          \<longrightarrow> myMillis (millis544 j) d' = myMillis (millis500 i) d0 + elapsed
              \<and> myMillis (millis544 j) d' > nextHealthReportTime (myRtc d')
              \<and> published (sendOrNot j d') \<noteq> published d'
              \<and> nextHealthReportTime (myRtc (sendOrNot j d'))
                  = myMillis (millis567 j) (sendOrNot j d') + ONE_HOUR)"
proof (intro impI, elim conjE)
  assume sb: "sleepBranch i d0"
    and bogus: "nextHealthReportTime (myRtc d0) - myMillis (millis497 i) d0 > ONE_HOUR"
  have r: "nextHealthReportTime (rtcMem (loop i d0)) = myMillis (millis500 i) d0"
    "nextHealthReportTime (myRtc (loop i d0)) = myMillis (millis500 i) d0"
    "rtc (rtcMem (loop i d0))
       = myMillis (millis504 i) d0
         + sleeptime (settings (checkForCommand (command0 i) d0)) * 1000"
    using bogus by (simp_all add: loop_sleep [OF sb])
  have next_wake: "myMillis (millis544 j) d' = myMillis (millis500 i) d0 + elapsed
              \<and> myMillis (millis544 j) d' > nextHealthReportTime (myRtc d')
              \<and> published (sendOrNot j d') \<noteq> published d'
              \<and> nextHealthReportTime (myRtc (sendOrNot j d'))
                  = myMillis (millis567 j) (sendOrNot j d') + ONE_HOUR"
    if l: "myRtc d' = rtcMem (loop i d0)"
      and e: "elapsed = millis544 j + (millis504 i - millis500 i)
                          + sleeptime (settings (checkForCommand (command0 i) d0)) * 1000"
      and pos: "0 < elapsed"
      and nw: "unat (myMillis (millis500 i) d0) + unat elapsed < 2 ^ 32"
  proof -
    have now: "myMillis (millis544 j) d' = myMillis (millis500 i) d0 + elapsed"
      by (simp add: myMillis_def l r(3) e)
    have dl: "nextHealthReportTime (myRtc d') = myMillis (millis500 i) d0"
      by (simp add: l r(1))
    have due: "myMillis (millis544 j) d' > nextHealthReportTime (myRtc d')"
      unfolding now dl using pos nw by (rule word_less_add_no_wrap)
    then have pub: "published (sendOrNot j d') \<noteq> published d'"
      by (simp add: sendOrNot_published)
    then have "nextHealthReportTime (myRtc (sendOrNot j d'))
        = myMillis (millis567 j) (sendOrNot j d') + ONE_HOUR"
      by (simp add: sendOrNot_myRtc myMillis_def)
    with now due pub show ?thesis by blast
  qed
  from r(1,2) next_wake
  show "nextHealthReportTime (myRtc (loop i d0)) = myMillis (millis500 i) d0
       \<and> nextHealthReportTime (rtcMem (loop i d0)) = myMillis (millis500 i) d0
       \<and> (myRtc d' = rtcMem (loop i d0)
            \<and> elapsed = millis544 j + (millis504 i - millis500 i)
                          + sleeptime (settings (checkForCommand (command0 i) d0)) * 1000
            \<and> 0 < elapsed
            \<and> unat (myMillis (millis500 i) d0) + unat elapsed < 2 ^ 32
          \<longrightarrow> myMillis (millis544 j) d' = myMillis (millis500 i) d0 + elapsed
              \<and> myMillis (millis544 j) d' > nextHealthReportTime (myRtc d')
              \<and> published (sendOrNot j d') \<noteq> published d'
              \<and> nextHealthReportTime (myRtc (sendOrNot j d'))
                  = myMillis (millis567 j) (sendOrNot j d') + ONE_HOUR)"
    by blast
qed

theorem bogus_deadline_reset_witness:
  "sleepBranch (loop_at 7000 0) (awake box_conf (MY_RTC_init\<lparr>nextHealthReportTime := 10000000\<rparr>) False)
   \<and> nextHealthReportTime (myRtc (loop (loop_at 7000 0)
         (awake box_conf (MY_RTC_init\<lparr>nextHealthReportTime := 10000000\<rparr>) False))) = 7000
   \<and> rtc (rtcMem (loop (loop_at 7000 0)
         (awake box_conf (MY_RTC_init\<lparr>nextHealthReportTime := 10000000\<rparr>) False))) = 307000
   \<and> published (sendOrNot (decide_at 1000 True)
         (awake box_conf (rtcMem (loop (loop_at 7000 0)
            (awake box_conf (MY_RTC_init\<lparr>nextHealthReportTime := 10000000\<rparr>) False))) True))
       \<noteq> []
   \<and> nextHealthReportTime (myRtc (sendOrNot (decide_at 1000 True)
         (awake box_conf (rtcMem (loop (loop_at 7000 0)
            (awake box_conf (MY_RTC_init\<lparr>nextHealthReportTime := 10000000\<rparr>) False))) True)))
       = 1500 + 1500 + ONE_HOUR"
proof -
  let ?d0 = "awake box_conf (MY_RTC_init\<lparr>nextHealthReportTime := 10000000\<rparr>) False"
  let ?i = "loop_at 7000 0"
  let ?d' = "awake box_conf (rtcMem (loop ?i ?d0)) True"
  let ?j = "decide_at 1000 True"
  have sb: "sleepBranch ?i ?d0"
    by (simp add: sleepBranch_awake box_conf_def PUBLISH_DELAY_def)
  have bogus: "nextHealthReportTime (myRtc ?d0) - myMillis (millis497 ?i) ?d0 > ONE_HOUR"
    by (simp add: awake_fields loop_at_fields myMillis_def MY_RTC_init_def ONE_HOUR_def)
  have l: "myRtc ?d' = rtcMem (loop ?i ?d0)"
    by (simp add: awake_fields)
  have now: "myMillis (millis500 ?i) ?d0 = 7000"
    by (simp add: awake_fields loop_at_fields myMillis_def MY_RTC_init_def)
  have e: "(301000 :: 32 word) = millis544 ?j + (millis504 ?i - millis500 ?i)
                          + sleeptime (settings (checkForCommand (command0 ?i) ?d0)) * 1000"
    by (simp add: awake_fields loop_at_fields decide_at_fields checkForCommand_def box_conf_def)
  have nw: "(0 :: 32 word) < 301000" "unat (myMillis (millis500 ?i) ?d0) + unat (301000 :: 32 word) < 2 ^ 32"
    by (simp_all add: now)
  note t = bogus_deadline_reset [where i = ?i and ?d0.0 = ?d0 and d' = ?d' and j = ?j
      and elapsed = 301000]
  from t sb bogus have dl: "nextHealthReportTime (myRtc (loop ?i ?d0)) = myMillis (millis500 ?i) ?d0"
    by blast
  from t sb bogus l e nw have pub: "published (sendOrNot ?j ?d') \<noteq> published ?d'"
    by blast
  from t sb bogus l e nw have nd: "nextHealthReportTime (myRtc (sendOrNot ?j ?d'))
      = myMillis (millis567 ?j) (sendOrNot ?j ?d') + ONE_HOUR"
    by blast
  from t sb bogus have dm: "nextHealthReportTime (rtcMem (loop ?i ?d0)) = myMillis (millis500 ?i) ?d0"
    by blast
  have "rtc (rtcMem (loop ?i ?d0))
      = myMillis (millis504 ?i) ?d0
        + sleeptime (settings (checkForCommand (command0 ?i) ?d0)) * 1000"
    by (simp add: loop_sleep [OF sb])
  also have "\<dots> = 307000"
    by (simp add: awake_fields loop_at_fields myMillis_def MY_RTC_init_def checkForCommand_def
        box_conf_def)
  finally have rt: "rtc (rtcMem (loop ?i ?d0)) = 307000" .
  have due563: "nextHealthReportTime (myRtc ?d') < myMillis (millis563 ?j) ?d'"
    unfolding myMillis_def l rt dm [unfolded now] by (simp add: decide_at_fields)
  show ?thesis
  proof (intro conjI)
    show "sleepBranch ?i ?d0" by (rule sb)
    show "nextHealthReportTime (myRtc (loop ?i ?d0)) = 7000" using dl now by simp
    show "rtc (rtcMem (loop ?i ?d0)) = 307000" by (rule rt)
    show "published (sendOrNot ?j ?d') \<noteq> []" using pub by (simp add: awake_fields)
    have "rtc (myRtc (sendOrNot ?j ?d')) = millis565 ?j"
      using pub due563 by (simp add: sendOrNot_myRtc)
    then show "nextHealthReportTime (myRtc (sendOrNot ?j ?d')) = 1500 + 1500 + ONE_HOUR"
      unfolding nd myMillis_def by (simp add: decide_at_fields)
  qed
qed

text \<open>
  The proviso on the wrap-around is needed. With the logical time 3 s before \<open>2 ^ 32\<close> ms
  at the reset, the offset saved for the next wake has wrapped around, the heartbeat is
  not due and the next wake sends nothing.
\<close>

lemma near_wrap_heartbeat_not_due:
  "sleepBranch (loop_at 7000 0)
     (awake box_conf (MY_RTC_init\<lparr>nextHealthReportTime := 4294960000, rtc := 4294957296\<rparr>) True)
   \<and> nextHealthReportTime (rtcMem (loop (loop_at 7000 0)
         (awake box_conf (MY_RTC_init\<lparr>nextHealthReportTime := 4294960000, rtc := 4294957296\<rparr>)
            True))) = 4294964296
   \<and> rtc (rtcMem (loop (loop_at 7000 0)
         (awake box_conf (MY_RTC_init\<lparr>nextHealthReportTime := 4294960000, rtc := 4294957296\<rparr>)
            True))) = 297000
   \<and> published (sendOrNot (decide_at 1000 True)
         (awake box_conf (rtcMem (loop (loop_at 7000 0)
            (awake box_conf
               (MY_RTC_init\<lparr>nextHealthReportTime := 4294960000, rtc := 4294957296\<rparr>) True)))
            False)) = []"
  by code_simp

text \<open>
  The claim as stated fails: with the deadline at 10 000 s and the logical time at 7 s,
  the deadline after \<open>loop\<close> is not the logical time plus one hour.
\<close>

theorem deadline_resync_counterexample:
  "sleepBranch (loop_at 7000 0) (awake box_conf (MY_RTC_init\<lparr>nextHealthReportTime := 10000000\<rparr>) False)
   \<and> nextHealthReportTime (myRtc (awake box_conf (MY_RTC_init\<lparr>nextHealthReportTime := 10000000\<rparr>) False))
       > myMillis 7000 (awake box_conf (MY_RTC_init\<lparr>nextHealthReportTime := 10000000\<rparr>) False) + ONE_HOUR
   \<and> nextHealthReportTime (myRtc (loop (loop_at 7000 0)
         (awake box_conf (MY_RTC_init\<lparr>nextHealthReportTime := 10000000\<rparr>) False)))
       \<noteq> myMillis 7000 (awake box_conf (MY_RTC_init\<lparr>nextHealthReportTime := 10000000\<rparr>) False) + ONE_HOUR"
  by (simp add: loop_sleep sleepBranch_awake awake_fields loop_at_fields myMillis_def box_conf_def
      MY_RTC_init_def ONE_HOUR_def PUBLISH_DELAY_def)

lemma goodnight_uint:
  assumes "0 \<le> sint (sleeptime (settings d))"
    and "myMillis m d \<le> nextHealthReportTime (myRtc d)"
  shows "uint (goodnight m d)
     = min (sint (sleeptime (settings d)))
           (max 0 ((uint (nextHealthReportTime (myRtc d)) - uint (myMillis m d)) div 1000))"
proof -
  have s: "uint (sleeptime (settings d)) = sint (sleeptime (settings d))"
  proof -
    have "sint (sleeptime (settings d)) < 2 ^ 32"
      using sint_lt [of "sleeptime (settings d)"] by simp
    with assms(1) have "take_bit 32 (sint (sleeptime (settings d))) = sint (sleeptime (settings d))"
      by (simp add: take_bit_int_eq_self)
    then show ?thesis by (simp add: uint_sint)
  qed
  have diff: "uint (nextHealthReportTime (myRtc d) - myMillis m d)
      = uint (nextHealthReportTime (myRtc d)) - uint (myMillis m d)"
    using assms(2) uint_sub_lem [of "myMillis m d" "nextHealthReportTime (myRtc d)"]
    by (simp add: word_le_def)
  have "0 \<le> (uint (nextHealthReportTime (myRtc d)) - uint (myMillis m d)) div 1000"
    using assms(2) by (simp add: word_le_def)
  then have mx: "max 0 ((uint (nextHealthReportTime (myRtc d)) - uint (myMillis m d)) div 1000)
      = (uint (nextHealthReportTime (myRtc d)) - uint (myMillis m d)) div 1000"
    by simp
  have "uint (goodnight m d)
      = min (uint (sleeptime (settings d)))
            (uint ((nextHealthReportTime (myRtc d) - myMillis m d) div 1000))"
    by (simp add: goodnight_def nextReportSecs_def min_def word_le_def)
  also have "uint ((nextHealthReportTime (myRtc d) - myMillis m d) div 1000)
      = (uint (nextHealthReportTime (myRtc d)) - uint (myMillis m d)) div 1000"
    by (simp add: uint_div diff)
  finally show ?thesis by (simp add: s mx)
qed

text \<open>
  C3, as the code has it. For a sleep time that is not negative and a heartbeat deadline
  that is not before the logical time (as unsigned 32-bit values), the planned sleep in
  seconds is the smaller of the configured sleep time and the whole seconds left until
  the deadline; with 300 s configured and the deadline 200 000 ms ahead it is 200 s. It
  is this number, times 1 000 000 in 32 bits, that \<open>loop\<close> passes to \<open>ESP.deepSleep\<close>.
\<close>

theorem sleep_seconds:
  "(0 \<le> sint (sleeptime (settings d)) \<and> myMillis m d \<le> nextHealthReportTime (myRtc d)
      \<longrightarrow> uint (goodnight m d)
            = min (sint (sleeptime (settings d)))
                  (max 0 ((uint (nextHealthReportTime (myRtc d)) - uint (myMillis m d)) div 1000)))
   \<and> (sleeptime (settings d) = 300 \<and> nextHealthReportTime (myRtc d) = myMillis m d + 200000
      \<longrightarrow> goodnight m d = 200)
   \<and> (sleepBranch i d0
      \<longrightarrow> halted (loop i d0)
            = Some (DeepSleep (ucast (goodnight (millis487 i) (checkForCommand (command0 i) d0)
                                      * 1000000))))"
proof -
  have a: "0 \<le> sint (sleeptime (settings d)) \<and> myMillis m d \<le> nextHealthReportTime (myRtc d)
      \<longrightarrow> uint (goodnight m d)
            = min (sint (sleeptime (settings d)))
                  (max 0 ((uint (nextHealthReportTime (myRtc d)) - uint (myMillis m d)) div 1000))"
    using goodnight_uint by blast
  have b: "sleeptime (settings d) = 300 \<and> nextHealthReportTime (myRtc d) = myMillis m d + 200000
      \<longrightarrow> goodnight m d = 200"
    by (simp add: goodnight_def nextReportSecs_def)
  have c: "sleepBranch i d0
      \<longrightarrow> halted (loop i d0)
            = Some (DeepSleep (ucast (goodnight (millis487 i) (checkForCommand (command0 i) d0)
                                      * 1000000)))"
    by (simp add: loop_sleep)
  from a b c show ?thesis by blast
qed

theorem sleep_seconds_witness:
  "uint (goodnight 1000 (awake box_conf (MY_RTC_init\<lparr>nextHealthReportTime := 201000\<rparr>) False)) = 200
   \<and> halted (loop (loop_at 1000 0)
         (awake box_conf (MY_RTC_init\<lparr>nextHealthReportTime := 201000\<rparr>) False))
       = Some (DeepSleep 200000000)"
  using sleep_seconds [of "awake box_conf (MY_RTC_init\<lparr>nextHealthReportTime := 201000\<rparr>) False"
      1000 "loop_at 1000 0"
      "awake box_conf (MY_RTC_init\<lparr>nextHealthReportTime := 201000\<rparr>) False"]
  by (simp add: sleepBranch_awake awake_fields myMillis_def box_conf_def MY_RTC_init_def
      PUBLISH_DELAY_def loop_at_fields checkForCommand_def)

text \<open>
  The claim as stated fails where the deadline is in the past: the unsigned difference
  wraps around, and with the deadline one second behind the planned sleep is the full
  300 s, where the formula of the claim gives 0.
\<close>

theorem sleep_seconds_counterexample:
  "nextHealthReportTime (myRtc (awake box_conf (MY_RTC_init\<lparr>nextHealthReportTime := 1000\<rparr>) False))
     \<le> myMillis 2000 (awake box_conf (MY_RTC_init\<lparr>nextHealthReportTime := 1000\<rparr>) False)
   \<and> uint (goodnight 2000 (awake box_conf (MY_RTC_init\<lparr>nextHealthReportTime := 1000\<rparr>) False))
     = 300
   \<and> min (sint (sleeptime (settings
               (awake box_conf (MY_RTC_init\<lparr>nextHealthReportTime := 1000\<rparr>) False))))
          (max 0 ((uint (nextHealthReportTime (myRtc
                     (awake box_conf (MY_RTC_init\<lparr>nextHealthReportTime := 1000\<rparr>) False)))
                   - uint (myMillis 2000
                       (awake box_conf (MY_RTC_init\<lparr>nextHealthReportTime := 1000\<rparr>) False)))
                  div 1000))
     = 0"
  by (simp add: goodnight_def nextReportSecs_def awake_fields myMillis_def box_conf_def
      MY_RTC_init_def)

text \<open>
  C8. The offset saved before deep sleep is the logical time plus the configured sleep
  time, whereas the device sleeps for the planned time, which is shorter when the
  heartbeat deadline is nearer. With 300 s configured, the logical time at 1 s and the
  deadline 200 s ahead, \<open>loop\<close> asks for 200 s of sleep and saves 301 s as the logical
  time of the wake-up: the logical clock runs 100 s ahead of the time that has passed.
\<close>

theorem wakeup_time_overshoots:
  "sleepBranch (loop_at 1000 0) (awake box_conf (MY_RTC_init\<lparr>nextHealthReportTime := 201000\<rparr>) False)
   \<and> halted (loop (loop_at 1000 0)
         (awake box_conf (MY_RTC_init\<lparr>nextHealthReportTime := 201000\<rparr>) False))
       = Some (DeepSleep (200 * 1000000))
   \<and> myMillis 1000 (awake box_conf (MY_RTC_init\<lparr>nextHealthReportTime := 201000\<rparr>) False) = 1000
   \<and> rtc (rtcMem (loop (loop_at 1000 0)
         (awake box_conf (MY_RTC_init\<lparr>nextHealthReportTime := 201000\<rparr>) False)))
       = 1000 + 300 * 1000"
  by (simp add: loop_sleep sleepBranch_awake awake_fields myMillis_def box_conf_def MY_RTC_init_def
      PUBLISH_DELAY_def loop_at_fields checkForCommand_def goodnight_def nextReportSecs_def
      ONE_HOUR_def)

lemma continuousBranch_myRtc:
  "continuousBranch i (d0\<lparr>myRtc := r\<rparr>) = continuousBranch i d0"
proof -
  from checkForCommand_config [of "d0\<lparr>myRtc := r\<rparr>" d0 "command0 i"]
  show ?thesis by (simp add: continuousBranch_def Let_def)
qed

lemma loop_continuous_fields:
  assumes "continuousBranch i d0"
  shows "published (loop i d0)
      = published d0 @ [(loRaTargetAddress (settings (checkForCommand (command0 i) d0)),
          \<lparr>r_distance = fst (measureDistance (sensor1 i) d0), r_battery = vcc1 i,
           r_isPresent = (mindistance (settings (checkForCommand (command0 i) d0))
                            < fst (measureDistance (sensor1 i) d0)
                          \<and> fst (measureDistance (sensor1 i) d0)
                            < maxdistance (settings (checkForCommand (command0 i) d0)))\<rparr>)]"
    and "rangeReads (loop i d0) = rangeReads d0 + SAMPLE_COUNT"
    and "myRtc (loop i d0) = myRtc d0" and "rtcMem (loop i d0) = rtcMem d0"
    and "distance (loop i d0) = fst (measureDistance (sensor1 i) d0)"
    and "isPresent (loop i d0)
      = (mindistance (settings (checkForCommand (command0 i) d0))
           < fst (measureDistance (sensor1 i) d0)
         \<and> fst (measureDistance (sensor1 i) d0)
           < maxdistance (settings (checkForCommand (command0 i) d0)))"
    and "doneTimestamp (loop i d0) = doneTimestamp d0"
    and "serialOut (loop i d0)
      = serialOut d0 @ [if sendOk1 i then ''Sending data successful.''
                        else ''Sending data failed!'']"
  by (simp_all add: loop_continuous [OF assms] myDelay_keeps report_keeps report_published
      checkForCommand_keeps)
     (simp add: report_def publish_def Let_def checkForCommand_keeps)

lemma loop_continuous_config:
  assumes "continuousBranch i d0"
  shows "settings (loop i d0) = settings (myDelay (polls1 i) (checkForCommand (command0 i) d0))
       \<and> settingsAreValid (loop i d0)
           = settingsAreValid (myDelay (polls1 i) (checkForCommand (command0 i) d0))
       \<and> eeprom (loop i d0) = eeprom (myDelay (polls1 i) (checkForCommand (command0 i) d0))
       \<and> halted (loop i d0) = halted (myDelay (polls1 i) (checkForCommand (command0 i) d0))"
  unfolding loop_continuous [OF assms]
  by (rule myDelay_config) (simp_all add: report_keeps)

lemma loop_continuous_myRtc:
  assumes "continuousBranch i d0"
  shows "loop i (d0\<lparr>myRtc := r\<rparr>) = (loop i d0)\<lparr>myRtc := r\<rparr>"
proof -
  let ?d = "d0\<lparr>myRtc := r\<rparr>"
  have c: "continuousBranch i ?d" using assms by (simp add: continuousBranch_myRtc)
  note cc = checkForCommand_config [of ?d d0 "command0 i", simplified]
  have m: "fst (measureDistance (sensor1 i) ?d) = fst (measureDistance (sensor1 i) d0)"
    by (simp add: measureDistance_fst getSamples_fst cong: if_cong)
  have dl: "settings (myDelay (polls1 i) (checkForCommand (command0 i) ?d))
        = settings (myDelay (polls1 i) (checkForCommand (command0 i) d0))
      \<and> settingsAreValid (myDelay (polls1 i) (checkForCommand (command0 i) ?d))
        = settingsAreValid (myDelay (polls1 i) (checkForCommand (command0 i) d0))
      \<and> eeprom (myDelay (polls1 i) (checkForCommand (command0 i) ?d))
        = eeprom (myDelay (polls1 i) (checkForCommand (command0 i) d0))
      \<and> halted (myDelay (polls1 i) (checkForCommand (command0 i) ?d))
        = halted (myDelay (polls1 i) (checkForCommand (command0 i) d0))"
    by (rule myDelay_config) (simp_all add: cc)
  show ?thesis
  proof (rule device.equality)
    show "settings (loop i ?d) = settings ((loop i d0)\<lparr>myRtc := r\<rparr>)"
      using loop_continuous_config [OF c] loop_continuous_config [OF assms] dl by simp
    show "settingsAreValid (loop i ?d) = settingsAreValid ((loop i d0)\<lparr>myRtc := r\<rparr>)"
      using loop_continuous_config [OF c] loop_continuous_config [OF assms] dl by simp
    show "eeprom (loop i ?d) = eeprom ((loop i d0)\<lparr>myRtc := r\<rparr>)"
      using loop_continuous_config [OF c] loop_continuous_config [OF assms] dl by simp
    show "halted (loop i ?d) = halted ((loop i d0)\<lparr>myRtc := r\<rparr>)"
      using loop_continuous_config [OF c] loop_continuous_config [OF assms] dl by simp
  qed (simp_all add: loop_continuous_fields [OF c] loop_continuous_fields [OF assms] m cc)
qed

lemma measure_steady: "fst (measureDistance (steady r) d) = (if uint r \<noteq> 0 then uint r else - 1)"
  by (simp add: measureDistance_fst getSamples_fst steady_def dominant_def candidateCount_def
      SAMPLE_COUNT_def upt_rec)

lemma continuousBranch_awake:
  "continuousBranch (loop_at t r) (awake c m p) = (sleeptime c = 0)"
  by (simp add: continuousBranch_def loop_at_fields awake_fields checkForCommand_def)

text \<open>
  C10, as the code has it. A call of \<open>loop\<close> that finds valid settings and a sleep time
  of zero takes the five readings, and hands exactly one report to the radio, with the
  measured distance and the presence derived from it, whatever the retained state holds.
  In \<open>loop\<close> the retained state (report flags, heartbeat deadline, previous presence) and
  the RTC memory are left as they were, and they are not read: with any other retained
  state \<open>r\<close> the call does the same and leaves \<open>r\<close>. \<open>loop\<close> never calls \<open>sendOrNot\<close>.
\<close>

theorem continuous_mode_reports_always:
  "continuousBranch i d0 \<longrightarrow>
     published (loop i d0)
       = published d0 @ [(loRaTargetAddress (settings (checkForCommand (command0 i) d0)),
           \<lparr>r_distance = fst (measureDistance (sensor1 i) d0), r_battery = vcc1 i,
            r_isPresent = (mindistance (settings (checkForCommand (command0 i) d0))
                             < fst (measureDistance (sensor1 i) d0)
                           \<and> fst (measureDistance (sensor1 i) d0)
                             < maxdistance (settings (checkForCommand (command0 i) d0)))\<rparr>)]
     \<and> rangeReads (loop i d0) = rangeReads d0 + SAMPLE_COUNT
     \<and> myRtc (loop i d0) = myRtc d0
     \<and> rtcMem (loop i d0) = rtcMem d0
     \<and> loop i (d0\<lparr>myRtc := r\<rparr>) = (loop i d0)\<lparr>myRtc := r\<rparr>"
  using loop_continuous_fields(1-4) [of i d0] loop_continuous_myRtc [of i d0 r] by blast

theorem continuous_mode_reports_always_witness:
  "continuousBranch (loop_at 1000 200) (awake (box_conf\<lparr>sleeptime := 0\<rparr>) MY_RTC_init False)
   \<and> published (loop (loop_at 1000 200) (awake (box_conf\<lparr>sleeptime := 0\<rparr>) MY_RTC_init False))
       = [(1, \<lparr>r_distance = 200, r_battery = 3000, r_isPresent = True\<rparr>)]
   \<and> myRtc (loop (loop_at 1000 200) (awake (box_conf\<lparr>sleeptime := 0\<rparr>) MY_RTC_init False))
       = MY_RTC_init"
  using continuous_mode_reports_always [of "loop_at 1000 200"
      "awake (box_conf\<lparr>sleeptime := 0\<rparr>) MY_RTC_init False" MY_RTC_init]
  by (simp add: continuousBranch_awake awake_fields loop_at_fields measure_steady box_conf_def
      checkForCommand_def)

text \<open>
  The claim as stated fails at the start of the device: \<open>setup\<close> calls \<open>sendOrNot\<close> in
  continuous mode too. With a sleep time of zero, a measurement of 1000 mm (absent) and
  the heartbeat not due, \<open>setup\<close> sends a report because the absent flag is clear, sets the
  flag and moves the heartbeat deadline; with the absent flag set it sends nothing.
\<close>

theorem continuous_mode_setup_counterexample:
  "sleeptime (eeprom (device_init (box_conf\<lparr>sleeptime := 0\<rparr>)
       (MY_RTC_init\<lparr>nextHealthReportTime := 3600000\<rparr>))) = 0
   \<and> settingsAreValid (setup_device (setup0 (cycle_with 1000))
       (device_init (box_conf\<lparr>sleeptime := 0\<rparr>) (MY_RTC_init\<lparr>nextHealthReportTime := 3600000\<rparr>)))
   \<and> published (setup_device (setup0 (cycle_with 1000))
       (device_init (box_conf\<lparr>sleeptime := 0\<rparr>) (MY_RTC_init\<lparr>nextHealthReportTime := 3600000\<rparr>)))
       = [(1, \<lparr>r_distance = 1000, r_battery = 3000, r_isPresent = False\<rparr>)]
   \<and> absentReported (myRtc (setup_device (setup0 (cycle_with 1000))
       (device_init (box_conf\<lparr>sleeptime := 0\<rparr>) (MY_RTC_init\<lparr>nextHealthReportTime := 3600000\<rparr>))))
   \<and> nextHealthReportTime (myRtc (setup_device (setup0 (cycle_with 1000))
       (device_init (box_conf\<lparr>sleeptime := 0\<rparr>) (MY_RTC_init\<lparr>nextHealthReportTime := 3600000\<rparr>))))
       = 1500 + ONE_HOUR
   \<and> published (setup_device (setup0 (cycle_with 1000))
       (device_init (box_conf\<lparr>sleeptime := 0\<rparr>)
          (MY_RTC_init\<lparr>nextHealthReportTime := 3600000, absentReported := True\<rparr>)))
       = []"
  by code_simp

text \<open>Only the sleeping branch of \<open>loop\<close> puts the device to sleep.\<close>

lemma processCommand_not_asleep:
  "halted d \<noteq> Some (DeepSleep t) \<Longrightarrow> halted (processCommand c d) \<noteq> Some (DeepSleep t)"
  by (cases c) (simp_all add: saveSettings_def Let_def)

lemma checkForCommand_not_asleep:
  "halted d \<noteq> Some (DeepSleep t) \<Longrightarrow> halted (checkForCommand p d) \<noteq> Some (DeepSleep t)"
  by (cases p) (simp_all add: checkForCommand_def processCommand_not_asleep)

lemma myDelay_not_asleep:
  "halted d \<noteq> Some (DeepSleep t) \<Longrightarrow> halted (myDelay ps d) \<noteq> Some (DeepSleep t)"
  by (induction ps arbitrary: d) (simp_all add: Let_def checkForCommand_not_asleep)

lemma sendOrNot_not_asleep:
  "halted d \<noteq> Some (DeepSleep t) \<Longrightarrow> halted (sendOrNot i d) \<noteq> Some (DeepSleep t)"
  by (simp add: sendOrNot_config myDelay_not_asleep)

lemma initSettings_not_asleep:
  "halted d \<noteq> Some (DeepSleep t) \<Longrightarrow> halted (initSettings d) \<noteq> Some (DeepSleep t)"
  by (simp add: initSettings_def loadSettings_def Let_def)

lemma initHardware_not_asleep:
  "halted d \<noteq> Some (DeepSleep t) \<Longrightarrow> halted (initHardware ps ok d) \<noteq> Some (DeepSleep t)"
  using myDelay_not_asleep [of d t ps] by (simp add: initHardware_def Let_def)

lemma measureDistance_halted: "halted (snd (measureDistance s d)) = halted d"
  by (simp add: measureDistance_snd)

lemma setup_not_asleep:
  assumes "halted d \<noteq> Some (DeepSleep t)"
  shows "halted (setup_device i d) \<noteq> Some (DeepSleep t)"
proof -
  let ?d1 = "initSettings d"
  let ?d2 = "initHardware (hwPolls i) (hwOk i) ?d1"
  let ?d3 = "snd (measureDistance (sensor0 i) ?d2)"
  let ?d5 = "?d3\<lparr>distance := fst (measureDistance (sensor0 i) ?d2),
                 isPresent := (mindistance (settings ?d3) < fst (measureDistance (sensor0 i) ?d2)
                    \<and> fst (measureDistance (sensor0 i) ?d2) < maxdistance (settings ?d3))\<rparr>"
  have 1: "halted ?d1 \<noteq> Some (DeepSleep t)" using assms by (rule initSettings_not_asleep)
  then have 2: "halted ?d2 \<noteq> Some (DeepSleep t)" by (rule initHardware_not_asleep)
  then have "halted ?d5 \<noteq> Some (DeepSleep t)" by (simp add: measureDistance_halted)
  then have 6: "halted (sendOrNot (decide0 i) ?d5) \<noteq> Some (DeepSleep t)"
    by (rule sendOrNot_not_asleep)
  then have 7: "halted (myDelay (polls0 i) (sendOrNot (decide0 i) ?d5)) \<noteq> Some (DeepSleep t)"
    by (rule myDelay_not_asleep)
  have "setup_device i d = ?d1 \<or> setup_device i d = ?d2
      \<or> setup_device i d = sendOrNot (decide0 i) ?d5
      \<or> setup_device i d = myDelay (polls0 i) (sendOrNot (decide0 i) ?d5)"
    by (simp add: setup_device_def Let_def split_def)
  with 1 2 6 7 show ?thesis by metis
qed

lemma loop_asleep_only_by_sleeping:
  assumes "halted d0 = None" "halted (loop i d0) = Some (DeepSleep t)"
  shows "sleepBranch i d0"
proof (rule ccontr)
  assume ns: "\<not> sleepBranch i d0"
  have c: "halted (checkForCommand (command0 i) d0) \<noteq> Some (DeepSleep t)"
    using assms(1) by (simp add: checkForCommand_not_asleep)
  show False
  proof (cases "continuousBranch i d0")
    case True
    from loop_continuous_config [OF True] myDelay_not_asleep [OF c, of "polls1 i"] assms(2)
    show False by simp
  next
    case False
    from loop_idle [OF False ns] c assms(2) show False by simp
  qed
qed

lemma runLoops_presence_saved:
  assumes "halted d = Some (DeepSleep t) \<longrightarrow> wasPresent (rtcMem d) = isPresent d"
    and "halted (runLoops ls d) = Some (DeepSleep t)"
  shows "wasPresent (rtcMem (runLoops ls d)) = isPresent (runLoops ls d)"
  using assms
proof (induction ls arbitrary: d)
  case Nil
  then show ?case by simp
next
  case (Cons l ls)
  show ?case
  proof (cases "halted d = None")
    case True
    have "halted (loop l d) = Some (DeepSleep t)
        \<longrightarrow> wasPresent (rtcMem (loop l d)) = isPresent (loop l d)"
    proof
      assume "halted (loop l d) = Some (DeepSleep t)"
      with True have "sleepBranch l d" by (rule loop_asleep_only_by_sleeping)
      then show "wasPresent (rtcMem (loop l d)) = isPresent (loop l d)"
        by (simp add: loop_sleep checkForCommand_keeps)
    qed
    with Cons.IH [of "loop l d"] Cons.prems(2) True show ?thesis by simp
  next
    case False
    with Cons.prems show ?thesis by simp
  qed
qed

section \<open>Properties of a wake cycle\<close>

lemma wake_fields:
  "settings (wake d) = conf_init" "settingsAreValid (wake d) = False"
  "doneTimestamp (wake d) = 0" "isPresent (wake d) = False" "distance (wake d) = 0"
  "myRtc (wake d) = MY_RTC_init" "eeprom (wake d) = eeprom d" "rtcMem (wake d) = rtcMem d"
  "rangeReads (wake d) = rangeReads d" "published (wake d) = published d"
  "serialOut (wake d) = serialOut d" "halted (wake d) = None"
  by (simp_all add: wake_def)

text \<open>
  What \<open>setup\<close> does in a quiet cycle: it loads the settings and the retained state,
  measures, and ends in \<open>sendOrNot\<close>.
\<close>

lemma setup_quiet:
  assumes "validConfig (eeprom d) = VALID_SETTINGS_FLAG" "0 < maxdistance (eeprom d)"
    and "noInput (hwPolls s)" "hwOk s" "noInput (polls (decide0 s))" "noInput (polls0 s)"
  shows "setup_device s (wake d)
     = sendOrNot (decide0 s)
         ((wake d)\<lparr>myRtc := rtcMem d, settings := eeprom d, settingsAreValid := True,
            rangeReads := rangeReads d + SAMPLE_COUNT,
            distance := fst (measureDistance (sensor0 s) d),
            isPresent := (mindistance (eeprom d) < fst (measureDistance (sensor0 s) d)
                          \<and> fst (measureDistance (sensor0 s) d) < maxdistance (eeprom d))\<rparr>)"
proof -
  let ?w = "(wake d)\<lparr>myRtc := rtcMem d, settings := eeprom d, settingsAreValid := True\<rparr>"
  have i: "initSettings (wake d) = ?w"
    using assms(1,2) by (simp add: initSettings_def loadSettings_def Let_def wake_fields)
  have h: "initHardware (hwPolls s) (hwOk s) ?w = ?w"
    using assms(3,4) by (simp add: initHardware_def Let_def myDelay_noInput wake_fields)
  have m: "fst (measureDistance (sensor0 s) ?w) = fst (measureDistance (sensor0 s) d)"
    by (simp add: measureDistance_fst getSamples_fst wake_fields cong: if_cong)
  let ?d5 = "(wake d)\<lparr>myRtc := rtcMem d, settings := eeprom d, settingsAreValid := True,
            rangeReads := rangeReads d + SAMPLE_COUNT,
            distance := fst (measureDistance (sensor0 s) d),
            isPresent := (mindistance (eeprom d) < fst (measureDistance (sensor0 s) d)
                          \<and> fst (measureDistance (sensor0 s) d) < maxdistance (eeprom d))\<rparr>"
  have hs: "halted (sendOrNot (decide0 s) ?d5) = None"
    using assms(5) by (simp add: sendOrNot_config myDelay_noInput wake_fields)
  have "setup_device s (wake d) = sendOrNot (decide0 s) ?d5"
    unfolding setup_device_def i
    using hs assms(6)
    by (simp add: Let_def split_def h m measureDistance_snd myDelay_noInput wake_fields)
  then show ?thesis .
qed

text \<open>With the device set to sleep and no serial input, the calls of \<open>loop\<close> do nothing
  until one of them finds the publish delay over and goes to sleep.\<close>

lemma runLoops_quiet:
  assumes "halted S = None" "settingsAreValid S" "sleeptime (settings S) \<noteq> 0"
    and "list_all (\<lambda>l. command0 l = None) ls"
    and "list_ex (\<lambda>l. millis485 l - doneTimestamp S > PUBLISH_DELAY) ls"
  shows "\<exists>l. sleepBranch l S \<and> command0 l = None \<and> runLoops ls S = loop l S"
  using assms(4,5)
proof (induction ls)
  case Nil
  then show ?case by simp
next
  case (Cons l ls)
  from Cons.prems(1) have c: "command0 l = None" by simp
  show ?case
  proof (cases "millis485 l - doneTimestamp S > PUBLISH_DELAY")
    case True
    then have sb: "sleepBranch l S"
      using assms(1-3) c by (simp add: sleepBranch_def checkForCommand_def)
    then have "halted (loop l S) \<noteq> None" by (simp add: loop_sleep)
    then have "runLoops ls (loop l S) = loop l S" by (cases ls) simp_all
    then have "runLoops (l # ls) S = loop l S" using assms(1) by simp
    with sb c show ?thesis by blast
  next
    case False
    then have "\<not> sleepBranch l S" "\<not> continuousBranch l S"
      using assms(3) c by (simp_all add: sleepBranch_def continuousBranch_def checkForCommand_def)
    then have "loop l S = S" using c by (simp add: loop_idle checkForCommand_def)
    then have "runLoops (l # ls) S = runLoops ls S" using assms(1) by simp
    with Cons False show ?thesis by simp
  qed
qed

text \<open>
  The effect of a quiet cycle on the RTC memory: a report is handed to the radio exactly
  when the presence found equals the previous one and the flag of that presence is not
  set; then that flag is set and the other cleared; the presence found becomes the
  previous presence.
\<close>

lemma quietCycle_effect:
  assumes "quietCycle p c d"
  shows "(published (cycle c d) \<noteq> published d)
       = ((\<not> wasPresent (rtcMem d) \<and> \<not> p \<and> \<not> absentReported (rtcMem d))
          \<or> (wasPresent (rtcMem d) \<and> p \<and> \<not> presentReported (rtcMem d)))"
    and "wasPresent (rtcMem (cycle c d)) = p"
    and "presentReported (rtcMem (cycle c d))
       = (if published (cycle c d) \<noteq> published d then p else presentReported (rtcMem d))"
    and "absentReported (rtcMem (cycle c d))
       = (if published (cycle c d) \<noteq> published d then \<not> p else absentReported (rtcMem d))"
proof -
  define s where "s = setup0 c"
  define d5 where "d5 = (wake d)\<lparr>myRtc := rtcMem d, settings := eeprom d, settingsAreValid := True,
            rangeReads := rangeReads d + SAMPLE_COUNT,
            distance := fst (measureDistance (sensor0 s) d),
            isPresent := (mindistance (eeprom d) < fst (measureDistance (sensor0 s) d)
                          \<and> fst (measureDistance (sensor0 s) d) < maxdistance (eeprom d))\<rparr>"
  define S where "S = sendOrNot (decide0 s) d5"
  from assms have q: "validConfig (eeprom d) = VALID_SETTINGS_FLAG" "0 < maxdistance (eeprom d)"
    "sleeptime (eeprom d) \<noteq> 0" "noInput (hwPolls s)" "hwOk s"
    "noInput (polls (decide0 s))" "noInput (polls0 s)"
    "list_all (\<lambda>l. command0 l = None) (loops0 c)"
    "list_ex (\<lambda>l. millis485 l - doneTimestamp (setup_device s (wake d)) > PUBLISH_DELAY)
       (loops0 c)"
    "isPresent (setup_device s (wake d)) = p"
    "\<not> millis544 (decide0 s) + rtc (rtcMem d) > nextHealthReportTime (rtcMem d)"
    "\<not> millis563 (decide0 s) + rtc (rtcMem d) > nextHealthReportTime (rtcMem d)"
    by (simp_all add: quietCycle_def s_def)
  have S: "setup_device s (wake d) = S"
    unfolding S_def d5_def using q(1,2,4-7) by (rule setup_quiet)
  have d5: "myRtc d5 = rtcMem d" "published d5 = published d" "halted d5 = None"
    "settingsAreValid d5" "settings d5 = eeprom d" "rtcMem d5 = rtcMem d"
    by (simp_all add: d5_def wake_fields)
  have p: "isPresent d5 = p"
    using q(10) by (simp add: S S_def sendOrNot_flags)
  have pubS: "(published S \<noteq> published d)
       = ((\<not> wasPresent (rtcMem d) \<and> \<not> p \<and> \<not> absentReported (rtcMem d))
          \<or> (wasPresent (rtcMem d) \<and> p \<and> \<not> presentReported (rtcMem d)))"
    using q(11) by (simp add: S_def sendOrNot_published myMillis_def d5 p)
  have hS: "halted S = None" "settingsAreValid S" "sleeptime (settings S) \<noteq> 0"
    using q(3,6) by (simp_all add: S_def sendOrNot_config myDelay_noInput d5)
  from runLoops_quiet [OF hS q(8) q(9) [unfolded S]]
  obtain l where l: "sleepBranch l S" "command0 l = None" "runLoops (loops0 c) S = loop l S"
    by blast
  have cyc: "cycle c d = loop l S"
    using S l(3) by (simp add: cycle_def s_def)
  have mem: "rtcMem (loop l S) = myRtc (loop l S)" "published (loop l S) = published S"
    "wasPresent (myRtc (loop l S)) = isPresent S"
    "presentReported (myRtc (loop l S)) = presentReported (myRtc S)"
    "absentReported (myRtc (loop l S)) = absentReported (myRtc S)"
    by (simp_all add: loop_sleep [OF l(1)] l(2) checkForCommand_def)
  have fS: "isPresent S = p"
    "presentReported (myRtc S) = (if published S \<noteq> published d then p
                                  else presentReported (rtcMem d))"
    "absentReported (myRtc S) = (if published S \<noteq> published d then \<not> p
                                 else absentReported (rtcMem d))"
    by (simp_all add: S_def sendOrNot_flags d5 p)
  show "(published (cycle c d) \<noteq> published d)
       = ((\<not> wasPresent (rtcMem d) \<and> \<not> p \<and> \<not> absentReported (rtcMem d))
          \<or> (wasPresent (rtcMem d) \<and> p \<and> \<not> presentReported (rtcMem d)))"
    using pubS by (simp add: cyc mem)
  show "wasPresent (rtcMem (cycle c d)) = p"
    by (simp add: cyc mem fS)
  show "presentReported (rtcMem (cycle c d))
       = (if published (cycle c d) \<noteq> published d then p else presentReported (rtcMem d))"
    by (simp add: cyc mem fS)
  show "absentReported (rtcMem (cycle c d))
       = (if published (cycle c d) \<noteq> published d then \<not> p else absentReported (rtcMem d))"
    by (simp add: cyc mem fS)
qed

lemma quietRun_length: "quietRun ps cs d \<Longrightarrow> length cs = length ps"
  by (induction ps cs d rule: quietRun.induct) simp_all

lemma sendOrNot_reports_iff:
  "(published (sendOrNot i d) \<noteq> published d)
     = (myMillis (millis544 i) d > nextHealthReportTime (myRtc d)
        \<or> (wasPresent (myRtc d) = False \<and> isPresent d = False \<and> absentReported (myRtc d) = False)
        \<or> (wasPresent (myRtc d) = True \<and> isPresent d = True \<and> presentReported (myRtc d) = False))"
  by (simp add: sendOrNot_published)

lemma debounce_scenario:
  assumes run: "quietRun [False, False, True, True, True] cs d"
    and start: "wasPresent (rtcMem d)" "\<not> presentReported (rtcMem d)" "\<not> absentReported (rtcMem d)"
  shows "reportsOf cs d = [False, True, False, True, False]"
proof -
  from quietRun_length [OF run] have "length cs = 5" by simp
  then obtain c1 c2 c3 c4 c5 where cs: "cs = [c1, c2, c3, c4, c5]"
    by (auto simp: length_Suc_conv eval_nat_numeral)
  define d1 where "d1 = cycle c1 d"
  define d2 where "d2 = cycle c2 d1"
  define d3 where "d3 = cycle c3 d2"
  define d4 where "d4 = cycle c4 d3"
  from run have q: "quietCycle False c1 d" "quietCycle False c2 d1" "quietCycle True c3 d2"
    "quietCycle True c4 d3" "quietCycle True c5 d4"
    by (simp_all add: cs d1_def d2_def d3_def d4_def)
  note e1 = quietCycle_effect [OF q(1), folded d1_def]
  note e2 = quietCycle_effect [OF q(2), folded d2_def]
  note e3 = quietCycle_effect [OF q(3), folded d3_def]
  note e4 = quietCycle_effect [OF q(4), folded d4_def]
  note e5 = quietCycle_effect [OF q(5)]
  have r1: "(published d1 \<noteq> published d) = False"
    using e1(1) start by simp
  have s1: "\<not> wasPresent (rtcMem d1)" "\<not> presentReported (rtcMem d1)" "\<not> absentReported (rtcMem d1)"
    using e1(2-4) r1 start by simp_all
  have r2: "(published d2 \<noteq> published d1) = True"
    using e2(1) s1 by simp
  have s2: "\<not> wasPresent (rtcMem d2)" "\<not> presentReported (rtcMem d2)" "absentReported (rtcMem d2)"
    using e2(2-4) r2 s1 by simp_all
  have r3: "(published d3 \<noteq> published d2) = False"
    using e3(1) s2 by simp
  have s3: "wasPresent (rtcMem d3)" "\<not> presentReported (rtcMem d3)" "absentReported (rtcMem d3)"
    using e3(2-4) r3 s2 by simp_all
  have r4: "(published d4 \<noteq> published d3) = True"
    using e4(1) s3 by simp
  have s4: "wasPresent (rtcMem d4)" "presentReported (rtcMem d4)" "\<not> absentReported (rtcMem d4)"
    using e4(2-4) r4 s3 by simp_all
  have r5: "(published (cycle c5 d4) \<noteq> published d4) = False"
    using e5(1) s4 by simp
  have "reportsOf cs d = [published d1 \<noteq> published d, published d2 \<noteq> published d1,
      published d3 \<noteq> published d2, published d4 \<noteq> published d3,
      published (cycle c5 d4) \<noteq> published d4]"
    by (simp add: cs d1_def d2_def d3_def d4_def)
  then show ?thesis by (simp only: r1 r2 r3 r4 r5)
qed

text \<open>
  C1, as the code has it. \<open>sendOrNot\<close> hands a report to the radio if and only if the
  logical time is past the heartbeat deadline, or the previous and the current presence
  are both false and the absent flag is not set, or both are true and the present flag
  is not set. Consequently, in five quiet wake cycles that find the presences false,
  false, true, true, true, with the heartbeat never due, both flags initially clear and
  the stored previous presence initially true, reports are sent exactly in the second and
  in the fourth cycle.
\<close>

theorem debounced_report_decision:
  "((published (sendOrNot i d) \<noteq> published d)
      = (myMillis (millis544 i) d > nextHealthReportTime (myRtc d)
         \<or> (wasPresent (myRtc d) = False \<and> isPresent d = False \<and> absentReported (myRtc d) = False)
         \<or> (wasPresent (myRtc d) = True \<and> isPresent d = True \<and> presentReported (myRtc d) = False)))
   \<and> (quietRun [False, False, True, True, True] cs d0
        \<and> wasPresent (rtcMem d0) \<and> \<not> presentReported (rtcMem d0) \<and> \<not> absentReported (rtcMem d0)
      \<longrightarrow> reportsOf cs d0 = [False, True, False, True, False])"
  using sendOrNot_reports_iff [of i d] debounce_scenario [of cs d0] by blast

theorem debounced_report_decision_witness:
  "quietRun [False, False, True, True, True] debounce_run (quiet_start True)
   \<and> wasPresent (rtcMem (quiet_start True))
   \<and> reportsOf debounce_run (quiet_start True) = [False, True, False, True, False]"
proof -
  have run: "quietRun [False, False, True, True, True] debounce_run (quiet_start True)"
    by code_simp
  have start: "wasPresent (rtcMem (quiet_start True))"
    "\<not> presentReported (rtcMem (quiet_start True))"
    "\<not> absentReported (rtcMem (quiet_start True))"
    by (simp_all add: quiet_start_def device_init_def MY_RTC_init_def)
  from debounced_report_decision [of "decide_at 1000 True" "quiet_start True" debounce_run
      "quiet_start True"] run start
  show ?thesis by blast
qed

text \<open>
  The claim as stated fails when the stored previous presence is false at the start, as
  it is in the declared initial value of \<open>MY_RTC\<close>: the first cycle already finds two equal
  presences and reports, and the second does not.
\<close>

theorem debounce_first_cycle_counterexample:
  "quietRun [False, False, True, True, True] debounce_run (quiet_start False)
   \<and> \<not> presentReported (rtcMem (quiet_start False))
   \<and> \<not> absentReported (rtcMem (quiet_start False))
   \<and> reportsOf debounce_run (quiet_start False) = [True, False, False, True, False]"
  by code_simp

text \<open>
  C5, as the code has it. Whenever \<open>loop\<close> takes its sleeping branch, whatever
  \<open>sendOrNot\<close> decided before, it stores the current presence as the previous presence
  and saves it to the RTC memory before the device goes to sleep; so every wake cycle
  that ends in deep sleep leaves the presence it found as the saved previous presence.
  (The continuous branch neither stores nor saves it.)
\<close>

theorem presence_saved_before_sleep:
  "(sleepBranch i d0
      \<longrightarrow> wasPresent (myRtc (loop i d0)) = isPresent d0
          \<and> wasPresent (rtcMem (loop i d0)) = isPresent d0
          \<and> isPresent (loop i d0) = isPresent d0
          \<and> (\<exists>t. halted (loop i d0) = Some (DeepSleep t)))
   \<and> (halted (cycle c d) = Some (DeepSleep t)
      \<longrightarrow> wasPresent (rtcMem (cycle c d)) = isPresent (cycle c d))"
proof -
  have a: "sleepBranch i d0
      \<longrightarrow> wasPresent (myRtc (loop i d0)) = isPresent d0
          \<and> wasPresent (rtcMem (loop i d0)) = isPresent d0
          \<and> isPresent (loop i d0) = isPresent d0
          \<and> (\<exists>t. halted (loop i d0) = Some (DeepSleep t))"
    by (simp add: loop_sleep checkForCommand_keeps)
  have "halted (setup_device (setup0 c) (wake d)) \<noteq> Some (DeepSleep t)"
    by (rule setup_not_asleep) (simp add: wake_fields)
  then have b: "halted (cycle c d) = Some (DeepSleep t)
      \<longrightarrow> wasPresent (rtcMem (cycle c d)) = isPresent (cycle c d)"
    unfolding cycle_def using runLoops_presence_saved by blast
  from a b show ?thesis by blast
qed

theorem presence_saved_before_sleep_witness:
  "sleepBranch (loop_at 7000 200) (awake box_conf MY_RTC_init True)
   \<and> wasPresent (rtcMem (loop (loop_at 7000 200) (awake box_conf MY_RTC_init True)))
   \<and> halted (cycle (cycle_with 200) (quiet_start False)) = Some (DeepSleep 300000000)
   \<and> wasPresent (rtcMem (cycle (cycle_with 200) (quiet_start False)))
   \<and> isPresent (cycle (cycle_with 200) (quiet_start False))"
proof -
  have s: "sleepBranch (loop_at 7000 200) (awake box_conf MY_RTC_init True)"
    by (simp add: sleepBranch_awake box_conf_def PUBLISH_DELAY_def)
  have h: "halted (cycle (cycle_with 200) (quiet_start False)) = Some (DeepSleep 300000000)"
    by code_simp
  have p: "isPresent (cycle (cycle_with 200) (quiet_start False))"
    by code_simp
  from presence_saved_before_sleep [of "loop_at 7000 200" "awake box_conf MY_RTC_init True"
      "cycle_with 200" "quiet_start False" 300000000] s h p
  show ?thesis by (simp add: awake_fields)
qed

text \<open>
  The claim as stated fails in continuous mode: a call of \<open>loop\<close> that measures 200 mm
  finds the box occupied and reports it, and the previous presence stays false, in
  \<open>myRtc\<close> and in the RTC memory.
\<close>

theorem continuous_mode_presence_counterexample:
  "continuousBranch (loop_at 1000 200) (awake (box_conf\<lparr>sleeptime := 0\<rparr>) MY_RTC_init False)
   \<and> isPresent (loop (loop_at 1000 200) (awake (box_conf\<lparr>sleeptime := 0\<rparr>) MY_RTC_init False))
   \<and> \<not> wasPresent (myRtc (loop (loop_at 1000 200)
          (awake (box_conf\<lparr>sleeptime := 0\<rparr>) MY_RTC_init False)))
   \<and> \<not> wasPresent (rtcMem (loop (loop_at 1000 200)
          (awake (box_conf\<lparr>sleeptime := 0\<rparr>) MY_RTC_init False)))"
  by (simp add: loop_continuous_fields continuousBranch_awake awake_fields loop_at_fields
      measure_steady box_conf_def checkForCommand_def MY_RTC_init_def)

section \<open>The report flags\<close>

lemma sendOrNot_exclusive:
  "flagsExclusive (myRtc d) \<Longrightarrow> flagsExclusive (myRtc (sendOrNot i d))"
  by (simp add: flagsExclusive_def sendOrNot_flags)

lemma initSettings_rtc:
  "myRtc (initSettings d) = rtcMem d" "rtcMem (initSettings d) = rtcMem d"
  by (simp_all add: initSettings_def loadSettings_def Let_def saveSettings_keeps
      initializeSettings_def)

lemma initHardware_rtc:
  "myRtc (initHardware ps ok d) = myRtc d" "rtcMem (initHardware ps ok d) = rtcMem d"
  by (simp_all add: initHardware_def Let_def myDelay_keeps)

lemma setup_exclusive:
  assumes "flagsExclusive (rtcMem d)"
  shows "flagsExclusive (myRtc (setup_device i d)) \<and> flagsExclusive (rtcMem (setup_device i d))"
proof -
  let ?d1 = "initSettings d"
  let ?d2 = "initHardware (hwPolls i) (hwOk i) ?d1"
  let ?d3 = "snd (measureDistance (sensor0 i) ?d2)"
  let ?d5 = "?d3\<lparr>distance := fst (measureDistance (sensor0 i) ?d2),
                 isPresent := (mindistance (settings ?d3) < fst (measureDistance (sensor0 i) ?d2)
                    \<and> fst (measureDistance (sensor0 i) ?d2) < maxdistance (settings ?d3))\<rparr>"
  have 1: "flagsExclusive (myRtc ?d1) \<and> flagsExclusive (rtcMem ?d1)"
    using assms by (simp add: initSettings_rtc)
  then have 2: "flagsExclusive (myRtc ?d2) \<and> flagsExclusive (rtcMem ?d2)"
    by (simp add: initHardware_rtc)
  then have 5: "flagsExclusive (myRtc ?d5) \<and> flagsExclusive (rtcMem ?d5)"
    by (simp add: measureDistance_snd)
  then have 6: "flagsExclusive (myRtc (sendOrNot (decide0 i) ?d5))
      \<and> flagsExclusive (rtcMem (sendOrNot (decide0 i) ?d5))"
    using sendOrNot_exclusive [of ?d5 "decide0 i"] by (simp add: sendOrNot_flags)
  then have 7: "flagsExclusive (myRtc (myDelay (polls0 i) (sendOrNot (decide0 i) ?d5)))
      \<and> flagsExclusive (rtcMem (myDelay (polls0 i) (sendOrNot (decide0 i) ?d5)))"
    by (simp add: myDelay_keeps)
  have "setup_device i d = ?d1 \<or> setup_device i d = ?d2
      \<or> setup_device i d = sendOrNot (decide0 i) ?d5
      \<or> setup_device i d = myDelay (polls0 i) (sendOrNot (decide0 i) ?d5)"
    by (simp add: setup_device_def Let_def split_def)
  with 1 2 6 7 show ?thesis by metis
qed

lemma loop_exclusive:
  assumes "flagsExclusive (myRtc d)" "flagsExclusive (rtcMem d)"
  shows "flagsExclusive (myRtc (loop i d)) \<and> flagsExclusive (rtcMem (loop i d))"
proof (cases "sleepBranch i d")
  case True
  then show ?thesis using assms(1) by (simp add: loop_sleep flagsExclusive_def)
next
  case ns: False
  show ?thesis
  proof (cases "continuousBranch i d")
    case True
    then show ?thesis using assms by (simp add: loop_continuous_fields)
  next
    case False
    then show ?thesis using ns assms by (simp add: loop_idle checkForCommand_keeps)
  qed
qed

lemma reachable_exclusive:
  assumes "reachable d0 d" "flagsExclusive (myRtc d0)" "flagsExclusive (rtcMem d0)"
  shows "flagsExclusive (myRtc d) \<and> flagsExclusive (rtcMem d)"
  using assms
proof (induction rule: reachable.induct)
  case start
  then show ?case by simp
next
  case (setup_step d i)
  then show ?case by (simp add: setup_exclusive)
next
  case (loop_step d j)
  then show ?case by (simp add: loop_exclusive)
next
  case (wake_step d)
  then show ?case by (simp add: wake_fields MY_RTC_init_def flagsExclusive_def)
qed

lemma runLoops_reachable: "reachable d0 d \<Longrightarrow> reachable d0 (runLoops ls d)"
  by (induction ls arbitrary: d) (simp_all add: reachable.loop_step)

lemma cycle_reachable: "reachable d0 d \<Longrightarrow> reachable d0 (cycle c d)"
  unfolding cycle_def by (intro runLoops_reachable reachable.setup_step reachable.wake_step)

lemma runCycles_reachable: "reachable d0 d \<Longrightarrow> reachable d0 (runCycles cs d)"
  by (induction cs arbitrary: d) (simp_all add: cycle_reachable)

text \<open>
  C4, as the code has it. From a device in which the present flag and the absent flag
  are not both set, neither in \<open>myRtc\<close> nor in the RTC memory, the device only gets to
  states in which they are not both set. Whenever a report is due, from any state at all,
  \<open>sendOrNot\<close> leaves exactly one of the two flags set: the flag of the current presence
  is set and the other one is cleared; and the sleeping branch of \<open>loop\<close> saves the two
  flags to the RTC memory as they are. (Nothing checks the flags that are read from the
  RTC memory at a start.)
\<close>

theorem report_flags_exclusive:
  "(reachable d0 d
      \<and> \<not> (presentReported (myRtc d0) \<and> absentReported (myRtc d0))
      \<and> \<not> (presentReported (rtcMem d0) \<and> absentReported (rtcMem d0))
      \<longrightarrow> \<not> (presentReported (myRtc d) \<and> absentReported (myRtc d))
          \<and> \<not> (presentReported (rtcMem d) \<and> absentReported (rtcMem d)))
   \<and> (myMillis (millis544 i) d' > nextHealthReportTime (myRtc d')
        \<or> (\<not> wasPresent (myRtc d') \<and> \<not> isPresent d' \<and> \<not> absentReported (myRtc d'))
        \<or> (wasPresent (myRtc d') \<and> isPresent d' \<and> \<not> presentReported (myRtc d'))
      \<longrightarrow> published (sendOrNot i d') \<noteq> published d'
          \<and> presentReported (myRtc (sendOrNot i d')) \<noteq> absentReported (myRtc (sendOrNot i d'))
          \<and> presentReported (myRtc (sendOrNot i d')) = isPresent d'
          \<and> absentReported (myRtc (sendOrNot i d')) = (\<not> isPresent d'))
   \<and> (published (sendOrNot i d') \<noteq> published d'
      \<longrightarrow> presentReported (myRtc (sendOrNot i d')) \<noteq> absentReported (myRtc (sendOrNot i d'))
          \<and> presentReported (myRtc (sendOrNot i d')) = isPresent d'
          \<and> absentReported (myRtc (sendOrNot i d')) = (\<not> isPresent d'))
   \<and> (sleepBranch j d''
      \<longrightarrow> presentReported (rtcMem (loop j d'')) = presentReported (myRtc d'')
          \<and> absentReported (rtcMem (loop j d'')) = absentReported (myRtc d''))"
proof -
  have a: "reachable d0 d
      \<and> \<not> (presentReported (myRtc d0) \<and> absentReported (myRtc d0))
      \<and> \<not> (presentReported (rtcMem d0) \<and> absentReported (rtcMem d0))
      \<longrightarrow> \<not> (presentReported (myRtc d) \<and> absentReported (myRtc d))
          \<and> \<not> (presentReported (rtcMem d) \<and> absentReported (rtcMem d))"
    using reachable_exclusive [of d0 d] by (simp add: flagsExclusive_def)
  have c: "published (sendOrNot i d') \<noteq> published d'
      \<longrightarrow> presentReported (myRtc (sendOrNot i d')) \<noteq> absentReported (myRtc (sendOrNot i d'))
          \<and> presentReported (myRtc (sendOrNot i d')) = isPresent d'
          \<and> absentReported (myRtc (sendOrNot i d')) = (\<not> isPresent d')"
    by (simp add: sendOrNot_flags)
  have "myMillis (millis544 i) d' > nextHealthReportTime (myRtc d')
        \<or> (\<not> wasPresent (myRtc d') \<and> \<not> isPresent d' \<and> \<not> absentReported (myRtc d'))
        \<or> (wasPresent (myRtc d') \<and> isPresent d' \<and> \<not> presentReported (myRtc d'))
      \<longrightarrow> published (sendOrNot i d') \<noteq> published d'"
    by (simp add: sendOrNot_published)
  with c have b: "myMillis (millis544 i) d' > nextHealthReportTime (myRtc d')
        \<or> (\<not> wasPresent (myRtc d') \<and> \<not> isPresent d' \<and> \<not> absentReported (myRtc d'))
        \<or> (wasPresent (myRtc d') \<and> isPresent d' \<and> \<not> presentReported (myRtc d'))
      \<longrightarrow> published (sendOrNot i d') \<noteq> published d'
          \<and> presentReported (myRtc (sendOrNot i d')) \<noteq> absentReported (myRtc (sendOrNot i d'))
          \<and> presentReported (myRtc (sendOrNot i d')) = isPresent d'
          \<and> absentReported (myRtc (sendOrNot i d')) = (\<not> isPresent d')"
    by blast
  have e: "sleepBranch j d''
      \<longrightarrow> presentReported (rtcMem (loop j d'')) = presentReported (myRtc d'')
          \<and> absentReported (rtcMem (loop j d'')) = absentReported (myRtc d'')"
    by (simp add: loop_sleep)
  from a b c e show ?thesis by blast
qed

theorem report_flags_exclusive_witness:
  "reachable (quiet_start True)
     (runCycles [cycle_with 1000, cycle_with 1000, cycle_with 200, cycle_with 200]
        (quiet_start True))
   \<and> absentReported (rtcMem (runCycles [cycle_with 1000, cycle_with 1000] (quiet_start True)))
   \<and> presentReported (rtcMem
         (runCycles [cycle_with 1000, cycle_with 1000, cycle_with 200, cycle_with 200]
            (quiet_start True)))
   \<and> \<not> absentReported (rtcMem
         (runCycles [cycle_with 1000, cycle_with 1000, cycle_with 200, cycle_with 200]
            (quiet_start True)))
   \<and> presentReported (myRtc (sendOrNot (decide_at 1000 True)
         (awake box_conf (MY_RTC_init\<lparr>presentReported := True, absentReported := True\<rparr>) True)))
   \<and> \<not> absentReported (myRtc (sendOrNot (decide_at 1000 True)
         (awake box_conf (MY_RTC_init\<lparr>presentReported := True, absentReported := True\<rparr>) True)))
   \<and> presentReported (rtcMem (loop (loop_at 7000 200)
         (awake box_conf (MY_RTC_init\<lparr>presentReported := True\<rparr>) True)))"
proof -
  let ?d4 = "runCycles [cycle_with 1000, cycle_with 1000, cycle_with 200, cycle_with 200]
        (quiet_start True)"
  let ?both = "awake box_conf (MY_RTC_init\<lparr>presentReported := True, absentReported := True\<rparr>) True"
  let ?one = "awake box_conf (MY_RTC_init\<lparr>presentReported := True\<rparr>) True"
  have r: "reachable (quiet_start True) ?d4"
    by (rule runCycles_reachable) (rule reachable.start)
  have s: "\<not> (presentReported (myRtc (quiet_start True)) \<and> absentReported (myRtc (quiet_start True)))"
    "\<not> (presentReported (rtcMem (quiet_start True)) \<and> absentReported (rtcMem (quiet_start True)))"
    by (simp_all add: quiet_start_def device_init_def MY_RTC_init_def)
  have a2: "absentReported (rtcMem (runCycles [cycle_with 1000, cycle_with 1000] (quiet_start True)))"
    by code_simp
  have p4: "presentReported (rtcMem ?d4)"
    by code_simp
  have due: "myMillis (millis544 (decide_at 1000 True)) ?both > nextHealthReportTime (myRtc ?both)"
    by (simp add: myMillis_def decide_at_def awake_fields MY_RTC_init_def)
  have sb: "sleepBranch (loop_at 7000 200) ?one"
    by (simp add: sleepBranch_awake box_conf_def PUBLISH_DELAY_def)
  from report_flags_exclusive [where ?d0.0 = "quiet_start True" and d = ?d4
      and i = "decide_at 1000 True" and d' = ?both and j = "loop_at 7000 200" and d'' = ?one]
    r s a2 p4 due sb
  show ?thesis by (simp add: awake_fields)
qed

text \<open>
  The claim as stated fails when the RTC memory holds both flags at the start: \<open>setup\<close>
  loads them unchecked, two cycles that find the box occupied send nothing (the present
  flag is set), and \<open>loop\<close> writes both flags back to the RTC memory.
\<close>

theorem both_flags_persist_counterexample:
  "reachable both_flags_start (runCycles [cycle_with 200, cycle_with 200] both_flags_start)
   \<and> presentReported (myRtc (runCycles [cycle_with 200, cycle_with 200] both_flags_start))
   \<and> absentReported (myRtc (runCycles [cycle_with 200, cycle_with 200] both_flags_start))
   \<and> presentReported (rtcMem (runCycles [cycle_with 200, cycle_with 200] both_flags_start))
   \<and> absentReported (rtcMem (runCycles [cycle_with 200, cycle_with 200] both_flags_start))
   \<and> published (runCycles [cycle_with 200, cycle_with 200] both_flags_start) = []"
proof -
  have "reachable both_flags_start (runCycles [cycle_with 200, cycle_with 200] both_flags_start)"
    by (rule runCycles_reachable) (rule reachable.start)
  moreover have "presentReported (myRtc (runCycles [cycle_with 200, cycle_with 200] both_flags_start))
   \<and> absentReported (myRtc (runCycles [cycle_with 200, cycle_with 200] both_flags_start))
   \<and> presentReported (rtcMem (runCycles [cycle_with 200, cycle_with 200] both_flags_start))
   \<and> absentReported (rtcMem (runCycles [cycle_with 200, cycle_with 200] both_flags_start))
   \<and> published (runCycles [cycle_with 200, cycle_with 200] both_flags_start) = []"
    by code_simp
  ultimately show ?thesis by blast
qed

end
